theory Spec2Isabelle
  imports Main "HOL-Library.Word"
begin

unbundle bit_operations_syntax

section \<open>JavaScript values\<close>

text \<open>
  The server in \<^verbatim>\<open>src/server.js\<close> is dynamically typed: a query parameter is a string,
  an array or an object (or \<^verbatim>\<open>undefined\<close> when absent), a JSON body field is any JSON
  value. The handlers test such values for truthiness, read properties of them, call
  \<^verbatim>\<open>startsWith\<close> on them and put them into template literals, and each of these can
  throw. The values are therefore modelled as a datatype and every operation that can
  throw returns a sum, \<open>Inl\<close> carrying the exception.

  A JavaScript string is a sequence of 16-bit code units. A number is kept as the string
  that \<^verbatim>\<open>Number.prototype.toString\<close> gives for it, since the server never computes with a
  number: it only tests it for truthiness and converts it to a string.
\<close>

type_synonym jsstring = "16 word list"

definition js :: "string \<Rightarrow> jsstring" where
  "js s = map (\<lambda>c. of_nat (of_char c)) s"

datatype jsval =
    JUndefined
  | JNull
  | JBool bool
  | JNumber jsstring
  | JString jsstring
  | JArray "jsval list"
  | JObject "(jsstring \<times> jsval) list"

datatype exn = TypeError | URIError

text \<open>\<^verbatim>\<open>!v\<close> is \<open>\<not> truthy v\<close>.\<close>

fun truthy :: "jsval \<Rightarrow> bool" where
  "truthy JUndefined = False"
| "truthy JNull = False"
| "truthy (JBool b) = b"
| "truthy (JNumber r) = (r \<noteq> js ''0'' \<and> r \<noteq> js ''NaN'')"
| "truthy (JString s) = (s \<noteq> [])"
| "truthy (JArray xs) = True"
| "truthy (JObject kvs) = True"

text \<open>\<^verbatim>\<open>a || b\<close> on values.\<close>

definition js_or :: "jsval \<Rightarrow> jsval \<Rightarrow> jsval" where
  "js_or a b = (if truthy a then a else b)"

text \<open>
  Own-property lookup in an object given by its list of properties (each name once), and
  the property read
  \<^verbatim>\<open>v.k\<close> (also the destructuring \<^verbatim>\<open>const { k } = v\<close>): reading a property of
  \<^verbatim>\<open>undefined\<close> or \<^verbatim>\<open>null\<close> throws a TypeError; none of the names the server reads
  exists on a prototype, so on any other value that is not an object with that own property
  the read gives \<^verbatim>\<open>undefined\<close>.
\<close>

definition field :: "(jsstring \<times> jsval) list \<Rightarrow> string \<Rightarrow> jsval" where
  "field kvs k = (case map_of kvs (js k) of None \<Rightarrow> JUndefined | Some v \<Rightarrow> v)"

fun get :: "jsval \<Rightarrow> string \<Rightarrow> exn + jsval" where
  "get JUndefined k = Inl TypeError"
| "get JNull k = Inl TypeError"
| "get (JObject kvs) k = Inr (field kvs k)"
| "get v k = Inr JUndefined"

text \<open>
  The string conversion of a template literal \<^verbatim>\<open>`${v}`\<close>. An array is joined with
  commas, \<^verbatim>\<open>undefined\<close> and \<^verbatim>\<open>null\<close> elements giving the empty string. A plain object
  gives \<^verbatim>\<open>[object Object]\<close>, unless it has an own property \<^verbatim>\<open>toString\<close>: a value that
  came from JSON or from a query string is never a function, so the conversion finds
  nothing callable that returns a primitive and throws a TypeError.
\<close>

fun toString :: "jsval \<Rightarrow> exn + jsstring"
  and join :: "jsval list \<Rightarrow> exn + jsstring" where
  "toString JUndefined = Inr (js ''undefined'')"
| "toString JNull = Inr (js ''null'')"
| "toString (JBool b) = Inr (if b then js ''true'' else js ''false'')"
| "toString (JNumber r) = Inr r"
| "toString (JString s) = Inr s"
| "toString (JArray xs) = join xs"
| "toString (JObject kvs) =
     (if map_of kvs (js ''toString'') \<noteq> None then Inl TypeError
      else Inr (js ''[object Object]''))"
| "join [] = Inr []"
| "join (x # xs) =
     (case (if x = JUndefined \<or> x = JNull then Inr [] else toString x) of
        Inl e \<Rightarrow> Inl e
      | Inr s \<Rightarrow>
          (if xs = [] then Inr s
           else (case join xs of Inl e \<Rightarrow> Inl e | Inr r \<Rightarrow> Inr (s @ js '','' @ r))))"

text \<open>
  \<^verbatim>\<open>v.startsWith(p)\<close>: only a string has the method; on any other value that reaches
  the call (a number, \<^verbatim>\<open>true\<close>, an array, an object) the call throws a TypeError.
\<close>

fun startsWith :: "jsval \<Rightarrow> jsstring \<Rightarrow> exn + bool" where
  "startsWith (JString s) p = Inr (take (length p) s = p)"
| "startsWith v p = Inl TypeError"

subsection \<open>\<^verbatim>\<open>encodeURIComponent\<close> and hexadecimal\<close>

definition unreserved :: "16 word \<Rightarrow> bool" where
  "unreserved c =
     (let n = unat c in
        (65 \<le> n \<and> n \<le> 90) \<or> (97 \<le> n \<and> n \<le> 122) \<or> (48 \<le> n \<and> n \<le> 57)
        \<or> n \<in> set [45, 95, 46, 33, 126, 42, 39, 40, 41])"

definition hexDigit :: "bool \<Rightarrow> nat \<Rightarrow> 16 word" where
  "hexDigit upper d = of_nat (if d < 10 then 48 + d else (if upper then 55 else 87) + d)"

definition percent :: "nat \<Rightarrow> jsstring" where
  "percent b = [37, hexDigit True (b div 16), hexDigit True (b mod 16)]"

definition utf8 :: "nat \<Rightarrow> nat list" where
  "utf8 cp =
     (if cp < 128 then [cp]
      else if cp < 2048 then [192 + cp div 64, 128 + cp mod 64]
      else if cp < 65536 then [224 + cp div 4096, 128 + cp div 64 mod 64, 128 + cp mod 64]
      else [240 + cp div 262144, 128 + cp div 4096 mod 64, 128 + cp div 64 mod 64,
            128 + cp mod 64])"

definition isLead :: "16 word \<Rightarrow> bool" where
  "isLead c = (55296 \<le> unat c \<and> unat c \<le> 56319)"

definition isTrail :: "16 word \<Rightarrow> bool" where
  "isTrail c = (56320 \<le> unat c \<and> unat c \<le> 57343)"

definition escape :: "nat \<Rightarrow> jsstring" where
  "escape cp = concat (map percent (utf8 cp))"

text \<open>
  The encoding loop of \<^verbatim>\<open>encodeURIComponent\<close>: an unreserved code unit is copied, any other
  code point is written as the percent-escaped octets of its UTF-8 form, and a surrogate
  code unit outside a lead/trail pair throws a URIError.
\<close>

fun encode :: "jsstring \<Rightarrow> exn + jsstring" where
  "encode [] = Inr []"
| "encode (c # cs) =
     (if unreserved c then (case encode cs of Inl e \<Rightarrow> Inl e | Inr r \<Rightarrow> Inr (c # r))
      else if isTrail c then Inl URIError
      else if isLead c then
        (case cs of
           [] \<Rightarrow> Inl URIError
         | d # ds \<Rightarrow>
             (if isTrail d then
                (case encode ds of
                   Inl e \<Rightarrow> Inl e
                 | Inr r \<Rightarrow>
                     Inr (escape ((unat c - 55296) * 1024 + (unat d - 56320) + 65536) @ r))
              else Inl URIError))
      else (case encode cs of Inl e \<Rightarrow> Inl e | Inr r \<Rightarrow> Inr (escape (unat c) @ r)))"

definition encodeURIComponent :: "jsval \<Rightarrow> exn + jsstring" where
  "encodeURIComponent v = (case toString v of Inl e \<Rightarrow> Inl e | Inr s \<Rightarrow> encode s)"

text \<open>
  \<^verbatim>\<open>crypto.randomBytes(16).toString('hex')\<close>: the sixteen random bytes are the input, as
  one 128-bit word with the first byte on top; each byte gives two lower-case hexadecimal
  digits.
\<close>

definition randomBytes16 :: "128 word \<Rightarrow> nat list" where
  "randomBytes16 w = map (\<lambda>i. unat (drop_bit (8 * (15 - i)) w) mod 256) [0..<16]"

definition hex :: "nat list \<Rightarrow> jsstring" where
  "hex bs = concat (map (\<lambda>b. [hexDigit False (b div 16), hexDigit False (b mod 16)]) bs)"

section \<open>Configuration, responses and the server's state\<close>

text \<open>
  \<^verbatim>\<open>process.env\<close> is a dictionary of strings; lines 45 to 48 read it, with
  \<^verbatim>\<open>||\<close> giving the default for an unset or empty variable.
\<close>

type_synonym env = "string \<rightharpoonup> jsstring"

definition CLIENT_ID :: "env \<Rightarrow> jsval" where
  "CLIENT_ID e = (case e ''LINKEDIN_CLIENT_ID'' of None \<Rightarrow> JUndefined | Some s \<Rightarrow> JString s)"

definition CLIENT_SECRET :: "env \<Rightarrow> jsval" where
  "CLIENT_SECRET e =
     (case e ''LINKEDIN_CLIENT_SECRET'' of None \<Rightarrow> JUndefined | Some s \<Rightarrow> JString s)"

definition REDIRECT_URI :: "env \<Rightarrow> jsstring" where
  "REDIRECT_URI e =
     (case e ''LINKEDIN_REDIRECT_URI'' of
        None \<Rightarrow> js ''http://localhost:5000/api/linkedin/callback''
      | Some s \<Rightarrow> if s \<noteq> [] then s else js ''http://localhost:5000/api/linkedin/callback'')"

definition BASE_URL :: "env \<Rightarrow> jsstring" where
  "BASE_URL e =
     (case e ''BASE_URL'' of
        None \<Rightarrow> js ''http://localhost:5000''
      | Some s \<Rightarrow> if s \<noteq> [] then s else js ''http://localhost:5000'')"

text \<open>
  What a handler does with \<^verbatim>\<open>res\<close>: \<^verbatim>\<open>res.status(n).json(v)\<close> (\<^verbatim>\<open>res.json(v)\<close> is status
  200), \<^verbatim>\<open>res.redirect(url)\<close> (status 302), \<^verbatim>\<open>res.status(n).send(text)\<close> or
  \<^verbatim>\<open>res.status(n).end()\<close>. A handler that throws outside a \<^verbatim>\<open>try\<close> writes no response.
\<close>

datatype response = Json nat jsval | Redirect jsstring | Send nat jsstring | End nat

fun status :: "response \<Rightarrow> nat" where
  "status (Json n v) = n"
| "status (Redirect url) = 302"
| "status (Send n t) = n"
| "status (End n) = n"

datatype outcome = Responded response | Threw exn

text \<open>
  The three process-wide maps of lines 9 to 11, with the pending timers of
  \<^verbatim>\<open>setTimeout\<close> and a clock in milliseconds. \<open>stateValues\<close> holds, under a state token,
  the \<^verbatim>\<open>templateId\<close> of the stored object \<^verbatim>\<open>{ templateId }\<close>; \<open>stateTimeouts\<close> holds the
  handle of the token's timer. A pending timer is its handle, its due time and the state
  token its callback closes over.
\<close>

record server =
  stateValues :: "jsstring \<rightharpoonup> jsval"
  stateTimeouts :: "jsstring \<rightharpoonup> nat"
  userDataStore :: "jsstring \<rightharpoonup> jsval"
  timers :: "(nat \<times> nat \<times> jsstring) list"
  nextTimer :: nat
  clock :: nat

definition init :: server where
  "init = \<lparr>stateValues = Map.empty, stateTimeouts = Map.empty, userDataStore = Map.empty,
           timers = [], nextTimer = 0, clock = 0\<rparr>"

text \<open>
  \<^verbatim>\<open>Map.prototype.has\<close> and \<^verbatim>\<open>get\<close> with a key that is any value: the keys of the three
  maps are all strings, so only a string can be found.
\<close>

fun has :: "(jsstring \<rightharpoonup> 'a) \<Rightarrow> jsval \<Rightarrow> bool" where
  "has m (JString s) = (m s \<noteq> None)"
| "has m v = False"

fun lookup :: "(jsstring \<rightharpoonup> 'a) \<Rightarrow> jsval \<Rightarrow> 'a option" where
  "lookup m (JString s) = m s"
| "lookup m v = None"

fun delete :: "(jsstring \<rightharpoonup> 'a) \<Rightarrow> jsval \<Rightarrow> (jsstring \<rightharpoonup> 'a)" where
  "delete m (JString s) = m(s := None)"
| "delete m v = m"

section \<open>The four endpoints\<close>

text \<open>
  Each handler takes what it reads of the request and the server's state, and returns
  what it did with the response together with the state it leaves. A \<^verbatim>\<open>console.log\<close>
  with a template literal is kept as the string conversion it performs, since that
  conversion can throw.

  The wrapper \<^verbatim>\<open>allowCors\<close> of lines 16 to 29 sets four headers, which are not modelled,
  answers an \<^verbatim>\<open>OPTIONS\<close> request itself and hands any other request to the handler. The
  routes are registered with \<^verbatim>\<open>app.get\<close> and \<^verbatim>\<open>app.post\<close>, which never pass an
  \<^verbatim>\<open>OPTIONS\<close> request on, so what follows is about the handlers given to the wrapper.
\<close>

datatype http_method = GET | HEAD | POST | OPTIONS

definition allowCors ::
  "(server \<Rightarrow> outcome \<times> server) \<Rightarrow> http_method \<Rightarrow> server \<Rightarrow> outcome \<times> server" where
  "allowCors fn method st = (if method = OPTIONS then (Responded (End 200), st) else fn st)"

subsection \<open>\<^verbatim>\<open>POST /api/linkedin/import\<close> (lines 53 to 71)\<close>

definition import_handler :: "env \<Rightarrow> jsval \<Rightarrow> server \<Rightarrow> outcome \<times> server" where
  "import_handler e body st =
     (case get body ''linkedinUrl'' of
        Inl x \<Rightarrow> (Threw x, st)
      | Inr linkedinUrl \<Rightarrow>
     (case get body ''templateId'' of
        Inl x \<Rightarrow> (Threw x, st)
      | Inr templateId \<Rightarrow>
     if \<not> truthy linkedinUrl then
       (Responded (Json 400 (JObject
          [(js ''message'', JString (js ''Veuillez fournir une URL LinkedIn valide.''))])), st)
     else
     (case startsWith linkedinUrl (js ''https://www.linkedin.com/in/'') of
        Inl x \<Rightarrow> (Threw x, st)
      | Inr ok \<Rightarrow>
     if \<not> ok then
       (Responded (Json 400 (JObject
          [(js ''message'', JString (js ''Veuillez fournir une URL LinkedIn valide.''))])), st)
     else
     (case toString templateId of
        Inl x \<Rightarrow> (Threw x, st)
      | Inr logged \<Rightarrow>
     (case encodeURIComponent templateId of
        Inl x \<Rightarrow>
          (Responded (Json 500 (JObject
             [(js ''message'', JString (js ''Erreur interne du serveur''))])), st)
      | Inr t \<Rightarrow>
          (Responded (Json 200 (JObject
             [(js ''authorizationUrl'',
               JString (BASE_URL e @ js ''/api/linkedin/auth?templateId='' @ t))])), st))))))"

subsection \<open>\<^verbatim>\<open>GET /api/linkedin/auth\<close> (lines 77 to 105)\<close>

text \<open>
  \<^verbatim>\<open>setTimeout\<close> of lines 91 to 94 adds a pending timer due 5 minutes after the current
  time; line 96 records its handle.
\<close>

definition auth_handler ::
  "env \<Rightarrow> 128 word \<Rightarrow> (jsstring \<times> jsval) list \<Rightarrow> server \<Rightarrow> outcome \<times> server" where
  "auth_handler e rnd query st =
     (let templateId = field query ''templateId'' in
      if \<not> truthy templateId then
        (Responded (Json 400 (JObject
           [(js ''error'', JString (js ''Template ID is required.''))])), st)
      else
      (case toString templateId of
         Inl x \<Rightarrow> (Threw x, st)
       | Inr logged \<Rightarrow>
      (let state = hex (randomBytes16 rnd);
           st1 = st\<lparr>stateValues := (stateValues st)(state \<mapsto> templateId)\<rparr>;
           timeout = nextTimer st1;
           st2 = st1\<lparr>timers := timers st1 @ [(timeout, clock st1 + 5 * 60 * 1000, state)],
                     nextTimer := Suc timeout\<rparr>;
           st3 = st2\<lparr>stateTimeouts := (stateTimeouts st2)(state \<mapsto> timeout)\<rparr>
       in
      (case toString (CLIENT_ID e) of
         Inl x \<Rightarrow> (Threw x, st3)
       | Inr client \<Rightarrow>
      (case encodeURIComponent (JString (REDIRECT_URI e)) of
         Inl x \<Rightarrow> (Threw x, st3)
       | Inr redirect \<Rightarrow>
      (case encodeURIComponent (JString (js ''openid profile email w_member_social'')) of
         Inl x \<Rightarrow> (Threw x, st3)
       | Inr scope \<Rightarrow>
          (Responded (Redirect
             (js ''https://www.linkedin.com/oauth/v2/authorization?response_type=code&client_id=''
              @ client @ js ''&redirect_uri='' @ redirect @ js ''&state='' @ state
              @ js ''&scope='' @ scope)), st3)))))))"

subsection \<open>Timers\<close>

text \<open>
  The callback of lines 91 to 94 deletes its state token from both maps. Time passes
  between requests: \<open>advance d\<close> moves the clock by \<open>d\<close> milliseconds and runs, in the
  order they were set, the timers that are due by then.
\<close>

fun fire :: "nat \<times> nat \<times> jsstring \<Rightarrow> server \<Rightarrow> server" where
  "fire (h, due, state) st =
     st\<lparr>stateValues := (stateValues st)(state := None),
        stateTimeouts := (stateTimeouts st)(state := None)\<rparr>"

definition advance :: "nat \<Rightarrow> server \<Rightarrow> server" where
  "advance d st =
     (let now = clock st + d
      in fold fire (filter (\<lambda>(h, due, state). due \<le> now) (timers st))
           (st\<lparr>timers := filter (\<lambda>(h, due, state). \<not> due \<le> now) (timers st),
               clock := now\<rparr>))"

subsection \<open>\<^verbatim>\<open>GET /api/linkedin/callback\<close> (lines 111 to 178)\<close>

text \<open>
  The identity provider is outside the program: it is given as the two functions that
  answer the requests of \<^verbatim>\<open>axios.post\<close> (from the parameters of lines 137 to 143) and of
  \<^verbatim>\<open>axios.get\<close> (from the \<^verbatim>\<open>Authorization\<close> header), each either rejecting or resolving
  with the \<^verbatim>\<open>data\<close> of the response. \<^verbatim>\<open>uuidv4()\<close> is an input as well.

  The handler runs in two parts. Lines 112 to 129 run when the request arrives; lines 131
  to 177 touch the server's state only at line 171, after both awaited calls, so they
  are one step taken when the profile has arrived.
\<close>

datatype axios_result = Rejected | Resolved jsval

record provider =
  accessToken_endpoint :: "(jsstring \<times> jsval) list \<Rightarrow> axios_result"
  userinfo_endpoint :: "jsstring \<Rightarrow> axios_result"

definition callback_validate ::
  "(jsstring \<times> jsval) list \<Rightarrow> server \<Rightarrow> (outcome + jsval) \<times> server" where
  "callback_validate query st =
     (let code = field query ''code''; state = field query ''state'' in
      (case toString code of
         Inl x \<Rightarrow> (Inl (Threw x), st)
       | Inr logged_code \<Rightarrow>
      (case toString state of
         Inl x \<Rightarrow> (Inl (Threw x), st)
       | Inr logged_state \<Rightarrow>
      if \<not> truthy state \<or> \<not> has (stateValues st) state then
        (Inl (Responded (Json 400 (JObject
           [(js ''error'', JString (js ''Invalid state. Potential CSRF attack detected.''))]))),
         st)
      else
      (case lookup (stateValues st) state of
         None \<Rightarrow> (Inl (Threw TypeError), st)
       | Some templateId \<Rightarrow>
      (let st1 = st\<lparr>stateValues := delete (stateValues st) state\<rparr> in
      (case toString templateId of
         Inl x \<Rightarrow> (Inl (Threw x), st1)
       | Inr logged_templateId \<Rightarrow>
      if \<not> truthy templateId then
        (Inl (Responded (Json 500 (JObject
           [(js ''error'', JString (js ''Template ID is undefined.''))]))), st1)
      else (Inr templateId, st1)))))))"

definition failed :: "server \<Rightarrow> outcome \<times> server" where
  "failed st = (Responded (Send 500 (js ''Failed to fetch LinkedIn data'')), st)"

text \<open>The object literal of lines 157 to 165; its property reads throw when \<^verbatim>\<open>data\<close> is
  \<^verbatim>\<open>undefined\<close> or \<^verbatim>\<open>null\<close>.\<close>

definition make_userData :: "jsval \<Rightarrow> jsval \<Rightarrow> exn + jsval" where
  "make_userData templateId profileData =
     (case get profileData ''name'' of Inl x \<Rightarrow> Inl x | Inr name \<Rightarrow>
     (case get profileData ''given_name'' of Inl x \<Rightarrow> Inl x | Inr given_name \<Rightarrow>
     (case get profileData ''family_name'' of Inl x \<Rightarrow> Inl x | Inr family_name \<Rightarrow>
     (case get profileData ''picture'' of Inl x \<Rightarrow> Inl x | Inr picture \<Rightarrow>
     (case get profileData ''email'' of Inl x \<Rightarrow> Inl x | Inr email \<Rightarrow>
     (case get profileData ''email_verified'' of Inl x \<Rightarrow> Inl x | Inr email_verified \<Rightarrow>
        Inr (JObject
          [(js ''id'', templateId),
           (js ''fullName'', name),
           (js ''firstName'', given_name),
           (js ''lastName'', family_name),
           (js ''profilePicture'', picture),
           (js ''email'', js_or email JNull),
           (js ''emailVerified'', js_or email_verified (JBool False))])))))))"

definition callback_exchange ::
  "env \<Rightarrow> provider \<Rightarrow> jsstring \<Rightarrow> jsval \<Rightarrow> jsval \<Rightarrow> server \<Rightarrow> outcome \<times> server" where
  "callback_exchange e p sessionId code templateId st =
     (case accessToken_endpoint p
             [(js ''grant_type'', JString (js ''authorization_code'')),
              (js ''code'', code),
              (js ''redirect_uri'', JString (REDIRECT_URI e)),
              (js ''client_id'', CLIENT_ID e),
              (js ''client_secret'', CLIENT_SECRET e)] of
        Rejected \<Rightarrow> failed st
      | Resolved tokenData \<Rightarrow>
     (case get tokenData ''access_token'' of
        Inl x \<Rightarrow> failed st
      | Inr accessToken \<Rightarrow>
     (case toString accessToken of
        Inl x \<Rightarrow> failed st
      | Inr token \<Rightarrow>
     (case userinfo_endpoint p (js ''Bearer '' @ token) of
        Rejected \<Rightarrow> failed st
      | Resolved profileData \<Rightarrow>
     (case make_userData templateId profileData of
        Inl x \<Rightarrow> failed st
      | Inr profile \<Rightarrow>
     (let st1 = st\<lparr>userDataStore := (userDataStore st)(sessionId \<mapsto> profile)\<rparr> in
     (case toString templateId of
        Inl x \<Rightarrow> failed st1
      | Inr t \<Rightarrow>
          (Responded (Redirect
             (js ''http://localhost:5173/details/'' @ t @ js ''?sessionId='' @ sessionId)),
           st1))))))))"

definition callback_handler ::
  "env \<Rightarrow> provider \<Rightarrow> jsstring \<Rightarrow> (jsstring \<times> jsval) list \<Rightarrow> server \<Rightarrow> outcome \<times> server" where
  "callback_handler e p sessionId query st =
     (case callback_validate query st of
        (Inl out, st1) \<Rightarrow> (out, st1)
      | (Inr templateId, st1) \<Rightarrow>
          callback_exchange e p sessionId (field query ''code'') templateId st1)"

subsection \<open>\<^verbatim>\<open>GET /api/user-data/:sessionId\<close> (lines 184 to 196)\<close>

definition user_data_handler :: "jsstring \<Rightarrow> server \<Rightarrow> outcome \<times> server" where
  "user_data_handler sessionId st =
     (case userDataStore st sessionId of
        Some userData \<Rightarrow> (Responded (Json 200 userData), st)
      | None \<Rightarrow>
          (Responded (Json 404 (JObject
             [(js ''error'', JString (js ''Session data not found''))])), st))"

section \<open>Runs of the server\<close>

text \<open>
  The server handles one event at a time: a request to one of the endpoints, or time
  passing. A callback request is either taken whole, or as its two parts with other
  events between them: \<open>CallbackArrives\<close> is lines 112 to 129, and \<open>CallbackCompletes\<close>
  is lines 131 to 177 of a request that arrived earlier, with the \<^verbatim>\<open>code\<close> and
  \<^verbatim>\<open>templateId\<close> it holds in its local variables.
\<close>

datatype event =
    Import jsval
  | Auth "128 word" "(jsstring \<times> jsval) list"
  | Callback provider jsstring "(jsstring \<times> jsval) list"
  | CallbackArrives "(jsstring \<times> jsval) list"
  | CallbackCompletes provider jsstring jsval jsval
  | UserData jsstring
  | Advance nat

text \<open>The state in which the handler of an event leaves the maps, the timers and the clock.\<close>

fun leaves :: "env \<Rightarrow> event \<Rightarrow> server \<Rightarrow> server" where
  "leaves e (Import body) st = snd (import_handler e body st)"
| "leaves e (Auth rnd query) st = snd (auth_handler e rnd query st)"
| "leaves e (Callback p sessionId query) st = snd (callback_handler e p sessionId query st)"
| "leaves e (CallbackArrives query) st = snd (callback_validate query st)"
| "leaves e (CallbackCompletes p sessionId code templateId) st =
     snd (callback_exchange e p sessionId code templateId st)"
| "leaves e (UserData sessionId) st = snd (user_data_handler sessionId st)"
| "leaves e (Advance d) st = advance d st"

text \<open>Whether the handler of an event throws.\<close>

fun thrown :: "outcome \<Rightarrow> bool" where
  "thrown (Threw x) = True"
| "thrown (Responded r) = False"

fun throws :: "env \<Rightarrow> event \<Rightarrow> server \<Rightarrow> bool" where
  "throws e (Import body) st = thrown (fst (import_handler e body st))"
| "throws e (Auth rnd query) st = thrown (fst (auth_handler e rnd query st))"
| "throws e (Callback p sessionId query) st =
     thrown (fst (callback_handler e p sessionId query st))"
| "throws e (CallbackArrives query) st =
     (case fst (callback_validate query st) of Inl out \<Rightarrow> thrown out | Inr templateId \<Rightarrow> False)"
| "throws e (CallbackCompletes p sessionId code templateId) st =
     thrown (fst (callback_exchange e p sessionId code templateId st))"
| "throws e (UserData sessionId) st = thrown (fst (user_data_handler sessionId st))"
| "throws e (Advance d) st = False"

text \<open>
  Every handler runs inside the \<^verbatim>\<open>async\<close> wrapper of line 16, and nothing in the file
  handles a rejected promise. A handler that throws therefore leaves its request
  unanswered and the unhandled rejection ends the process, with the three maps and the
  timers: \<open>step\<close> gives \<open>None\<close> then, and a run is over at the first such event. While
  the process lives, \<open>run\<close> gives the state after the events.
\<close>

definition step :: "env \<Rightarrow> event \<Rightarrow> server \<Rightarrow> server option" where
  "step e ev st = (if throws e ev st then None else Some (leaves e ev st))"

fun run :: "env \<Rightarrow> event list \<Rightarrow> server \<Rightarrow> server option" where
  "run e [] st = Some st"
| "run e (ev # evs) st =
     (case step e ev st of None \<Rightarrow> None | Some st1 \<Rightarrow> run e evs st1)"

text \<open>Whether an event is an auth request that draws the state token \<open>token\<close>.\<close>

fun issues :: "jsstring \<Rightarrow> event \<Rightarrow> bool" where
  "issues token (Auth rnd query) = (hex (randomBytes16 rnd) = token)"
| "issues token ev = False"

text \<open>Whether an event is a callback to which \<^verbatim>\<open>uuidv4()\<close> gives the session id \<open>sid\<close>.\<close>

fun generates :: "jsstring \<Rightarrow> event \<Rightarrow> bool" where
  "generates sid (Callback p sessionId query) = (sessionId = sid)"
| "generates sid (CallbackCompletes p sessionId code templateId) = (sessionId = sid)"
| "generates sid ev = False"

text \<open>
  The invariant of the state registry: the guard of line 80 and the string conversion of
  line 85 come before line 87, so every stored \<^verbatim>\<open>templateId\<close> is truthy and converts to
  a string; every state token is 32 hexadecimal digits, so none is empty.
\<close>

definition registry_ok :: "server \<Rightarrow> bool" where
  "registry_ok st =
     (\<forall>s t. stateValues st s = Some t \<longrightarrow>
        s \<noteq> [] \<and> truthy t \<and> (\<exists>ts. toString t = Inr ts))"

text \<open>The string that \<^verbatim>\<open>${CLIENT_ID}\<close> gives in the template literal of line 100.\<close>

definition client :: "env \<Rightarrow> jsstring" where
  "client e = (case e ''LINKEDIN_CLIENT_ID'' of None \<Rightarrow> js ''undefined'' | Some s \<Rightarrow> s)"

text \<open>
  What is true of a state token whose timer is due at \<open>due\<close>: before that time the timer
  is pending, and from then on the token is not in the registry.
\<close>

definition expiring :: "nat \<Rightarrow> jsstring \<Rightarrow> server \<Rightarrow> bool" where
  "expiring due token st =
     (if clock st < due then (\<exists>h. (h, due, token) \<in> set (timers st))
      else stateValues st token = None)"

section \<open>Example requests\<close>

text \<open>
  A server started with no environment variable set, an auth request for the template
  \<^verbatim>\<open>t1\<close> to which the random source gives sixteen zero bytes, the callback requests that
  present its state token, and four identity providers: one that returns a full profile,
  one whose profile has an empty \<^verbatim>\<open>email\<close>, one that rejects every request, one that
  gives an access token and then rejects the profile request.
\<close>

definition env0 :: env where
  "env0 = Map.empty"

definition sid0 :: jsstring where
  "sid0 = js ''1b9d6bcd-bbfd-4b2d-9b5d-ab8dfbbd4bed''"

definition t1_query :: "(jsstring \<times> jsval) list" where
  "t1_query = [(js ''templateId'', JString (js ''t1''))]"

definition token0 :: jsstring where
  "token0 = hex (randomBytes16 0)"

definition issued :: server where
  "issued = snd (auth_handler env0 0 t1_query init)"

definition cb_query :: "(jsstring \<times> jsval) list" where
  "cb_query = [(js ''code'', JString (js ''c0de'')), (js ''state'', JString token0)]"

definition cb_query_no_code :: "(jsstring \<times> jsval) list" where
  "cb_query_no_code = [(js ''state'', JString token0)]"

text \<open>The query \<^verbatim>\<open>?code[toString]=x&state=...\<close> as the extended query parser gives it: the
  \<^verbatim>\<open>code\<close> is an object with an own property \<^verbatim>\<open>toString\<close>.\<close>

definition cb_query_unprintable :: "(jsstring \<times> jsval) list" where
  "cb_query_unprintable =
     [(js ''code'', JObject [(js ''toString'', JString (js ''x''))]),
      (js ''state'', JString token0)]"

definition jane_profile :: "(jsstring \<times> jsval) list" where
  "jane_profile =
     [(js ''name'', JString (js ''Jane Doe'')),
      (js ''given_name'', JString (js ''Jane'')),
      (js ''family_name'', JString (js ''Doe'')),
      (js ''email'', JString (js ''j@d.com'')),
      (js ''email_verified'', JBool True)]"

definition jane :: provider where
  "jane = \<lparr>accessToken_endpoint =
              (\<lambda>params. Resolved (JObject [(js ''access_token'', JString (js ''tok''))])),
            userinfo_endpoint = (\<lambda>authorization. Resolved (JObject jane_profile))\<rparr>"

definition blank_profile :: "(jsstring \<times> jsval) list" where
  "blank_profile =
     [(js ''name'', JString (js ''Jane Doe'')),
      (js ''given_name'', JString (js ''Jane'')),
      (js ''family_name'', JString (js ''Doe'')),
      (js ''email'', JString []),
      (js ''email_verified'', JBool False)]"

definition blank :: provider where
  "blank = \<lparr>accessToken_endpoint =
               (\<lambda>params. Resolved (JObject [(js ''access_token'', JString (js ''tok''))])),
             userinfo_endpoint = (\<lambda>authorization. Resolved (JObject blank_profile))\<rparr>"

definition down :: provider where
  "down = \<lparr>accessToken_endpoint = (\<lambda>params. Rejected),
            userinfo_endpoint = (\<lambda>authorization. Rejected)\<rparr>"

definition token_only :: provider where
  "token_only = \<lparr>accessToken_endpoint =
                    (\<lambda>params. Resolved (JObject [(js ''access_token'', JString (js ''tok''))])),
                  userinfo_endpoint = (\<lambda>authorization. Rejected)\<rparr>"

text \<open>The profile the first provider's answer is stored as, and the server after the
  callback that stores it.\<close>

definition jane_stored :: jsval where
  "jane_stored = JObject
     [(js ''id'', JString (js ''t1'')),
      (js ''fullName'', JString (js ''Jane Doe'')),
      (js ''firstName'', JString (js ''Jane'')),
      (js ''lastName'', JString (js ''Doe'')),
      (js ''profilePicture'', JUndefined),
      (js ''email'', JString (js ''j@d.com'')),
      (js ''emailVerified'', JBool True)]"

definition created :: server where
  "created = snd (callback_handler env0 jane sid0 cb_query issued)"

section \<open>Strings, tokens and encodings\<close>

lemma unit_of_char_inj: "inj (\<lambda>c::char. (of_nat (of_char c) :: 16 word))"
proof (rule injI)
  fix a b :: char
  assume eq: "(of_nat (of_char a) :: 16 word) = of_nat (of_char b)"
  have lt: "(of_char c :: nat) < 2 ^ 16" for c :: char
    by (rule less_trans [OF nat_of_char_less_256]) simp
  have "unat (of_nat (of_char a) :: 16 word) = unat (of_nat (of_char b) :: 16 word)"
    using eq by simp
  then have "(of_char a :: nat) = of_char b"
    using lt [of a] lt [of b] by (simp add: unat_of_nat)
  then show "a = b" by simp
qed

lemma js_eq_iff [simp]: "js a = js b \<longleftrightarrow> a = b"
  unfolding js_def using inj_map_eq_map [OF unit_of_char_inj] by blast

lemma js_Nil_iff [simp]: "js a = [] \<longleftrightarrow> a = []"
  by (simp add: js_def)

lemma hex_length: "length (hex bs) = 2 * length bs"
  by (induction bs) (simp_all add: hex_def)

lemma token_nonempty [simp]: "hex (randomBytes16 w) \<noteq> []"
proof -
  have "length (hex (randomBytes16 w)) = 32"
    by (simp add: hex_length randomBytes16_def)
  then show ?thesis by auto
qed

lemma upt16: "[0..<16] = [0, 1, 2, 3, 4, 5, 6, 7, 8, 9, 10, 11, 12, 13, 14, 15]"
  by (simp add: upt_conv_Cons)

lemma hex_example:
  "hex (randomBytes16 0x00112233445566778899aabbccddeeff) =
     js ''00112233445566778899aabbccddeeff''"
  by (simp add: hex_def randomBytes16_def hexDigit_def js_def upt16 drop_bit_eq_div unat_numeral)

lemma encode_example:
  "encode [0xD83D, 0xDE00, 0xE9, 0x20AC] = Inr (js ''%F0%9F%98%80%C3%A9%E2%82%AC'')"
  by (simp add: js_def unreserved_def isLead_def isTrail_def escape_def utf8_def percent_def
      hexDigit_def)

lemma allowCors_routed: "method \<noteq> OPTIONS \<Longrightarrow> allowCors fn method st = fn st"
  by (simp add: allowCors_def)

lemma encodeURIComponent_JString [simp]: "encodeURIComponent (JString s) = encode s"
  by (simp add: encodeURIComponent_def)

lemma encode_scope:
  "encode (js ''openid profile email w_member_social'')
     = Inr (js ''openid%20profile%20email%20w_member_social'')"
  by (simp add: js_def unreserved_def isLead_def isTrail_def
      escape_def utf8_def percent_def hexDigit_def)

lemma toString_CLIENT_ID [simp]: "toString (CLIENT_ID e) = Inr (client e)"
  by (simp add: CLIENT_ID_def client_def split: option.splits)

lemma auth_missing:
  "\<not> truthy (field query ''templateId'') \<Longrightarrow>
   auth_handler e rnd query st =
     (Responded (Json 400 (JObject [(js ''error'', JString (js ''Template ID is required.''))])), st)"
  by (simp add: auth_handler_def)

lemma auth_issue:
  assumes "truthy (field query ''templateId'')"
    and "toString (field query ''templateId'') = Inr s"
    and "encode (REDIRECT_URI e) = Inr redirect"
  shows "auth_handler e rnd query st =
     (Responded (Redirect
        (js ''https://www.linkedin.com/oauth/v2/authorization?response_type=code&client_id=''
         @ client e @ js ''&redirect_uri='' @ redirect @ js ''&state='' @ hex (randomBytes16 rnd)
         @ js ''&scope='' @ js ''openid%20profile%20email%20w_member_social'')),
      st\<lparr>stateValues := (stateValues st)(hex (randomBytes16 rnd) \<mapsto> field query ''templateId''),
         timers := timers st @ [(nextTimer st, clock st + 300000, hex (randomBytes16 rnd))],
         nextTimer := Suc (nextTimer st),
         stateTimeouts := (stateTimeouts st)(hex (randomBytes16 rnd) \<mapsto> nextTimer st)\<rparr>)"
  using assms by (simp add: auth_handler_def Let_def encode_scope)

lemma auth_redirect:
  assumes "auth_handler e rnd query st = (Responded (Redirect url), st1)"
  shows "truthy (field query ''templateId'') \<and> (\<exists>s. toString (field query ''templateId'') = Inr s)
     \<and> st1 = st\<lparr>stateValues := (stateValues st)(hex (randomBytes16 rnd) \<mapsto> field query ''templateId''),
         timers := timers st @ [(nextTimer st, clock st + 300000, hex (randomBytes16 rnd))],
         nextTimer := Suc (nextTimer st),
         stateTimeouts := (stateTimeouts st)(hex (randomBytes16 rnd) \<mapsto> nextTimer st)\<rparr>"
  using assms
  by (auto simp: auth_handler_def Let_def encode_scope
      split: if_splits sum.splits)

section \<open>What each handler leaves unchanged\<close>

lemma validate_absent:
  assumes "toString (field query ''code'') = Inr c"
    and "toString (field query ''state'') = Inr s"
    and "\<not> truthy (field query ''state'') \<or> \<not> has (stateValues st) (field query ''state'')"
  shows "callback_validate query st = (Inl (Responded (Json 400 (JObject
     [(js ''error'', JString (js ''Invalid state. Potential CSRF attack detected.''))]))), st)"
  using assms by (auto simp: callback_validate_def Let_def)

lemma validate_present:
  assumes "toString (field query ''code'') = Inr c"
    and "field query ''state'' = JString s" and "s \<noteq> []"
    and "stateValues st s = Some t"
  shows "callback_validate query st =
     ((case toString t of
         Inl x \<Rightarrow> Inl (Threw x)
       | Inr ts \<Rightarrow>
           if truthy t then Inr t
           else Inl (Responded (Json 500 (JObject
                  [(js ''error'', JString (js ''Template ID is undefined.''))])))),
      st\<lparr>stateValues := (stateValues st)(s := None)\<rparr>)"
  using assms by (simp add: callback_validate_def Let_def split: sum.splits)

lemma exchange_status:
  "\<exists>r. fst (callback_exchange e p sid code t st) = Responded r \<and> (status r = 302 \<or> status r = 500)"
  by (auto simp: callback_exchange_def failed_def Let_def
      split: sum.splits axios_result.splits)

lemma exchange_rejected:
  "accessToken_endpoint p
     [(js ''grant_type'', JString (js ''authorization_code'')), (js ''code'', code),
      (js ''redirect_uri'', JString (REDIRECT_URI e)), (js ''client_id'', CLIENT_ID e),
      (js ''client_secret'', CLIENT_SECRET e)] = Rejected \<Longrightarrow>
   callback_exchange e p sid code t st =
     (Responded (Send 500 (js ''Failed to fetch LinkedIn data'')), st)"
  by (simp add: callback_exchange_def failed_def)

lemma import_frame: "snd (import_handler e body st) = st"
  by (simp add: import_handler_def split: sum.splits)

lemma user_data_frame: "snd (user_data_handler sid st) = st"
  by (simp add: user_data_handler_def split: option.splits)

lemma fold_fire_frame:
  "userDataStore (fold fire ts st) = userDataStore st \<and> timers (fold fire ts st) = timers st
   \<and> clock (fold fire ts st) = clock st \<and> nextTimer (fold fire ts st) = nextTimer st"
  by (induction ts arbitrary: st) auto

lemma fold_fire_stateValues:
  "stateValues (fold fire ts st) k = (if k \<in> (\<lambda>(h, due, s). s) ` set ts then None else stateValues st k)"
  by (induction ts arbitrary: st) auto

lemma advance_frame:
  "userDataStore (advance d st) = userDataStore st"
  "clock (advance d st) = clock st + d"
  "nextTimer (advance d st) = nextTimer st"
  "timers (advance d st) = filter (\<lambda>(h, due, s). \<not> due \<le> clock st + d) (timers st)"
  by (simp_all add: advance_def Let_def fold_fire_frame)

lemma advance_stateValues:
  "stateValues (advance d st) k =
     (if \<exists>h due. (h, due, k) \<in> set (timers st) \<and> due \<le> clock st + d then None
      else stateValues st k)"
  by (force simp: advance_def Let_def fold_fire_stateValues)

lemma validate_facts:
  "timers (snd (callback_validate query st)) = timers st"
  "stateTimeouts (snd (callback_validate query st)) = stateTimeouts st"
  "nextTimer (snd (callback_validate query st)) = nextTimer st"
  "clock (snd (callback_validate query st)) = clock st"
  "userDataStore (snd (callback_validate query st)) = userDataStore st"
  by (simp_all add: callback_validate_def Let_def split: sum.splits option.splits)

lemma validate_stateValues:
  "stateValues (snd (callback_validate query st)) k = None
   \<or> stateValues (snd (callback_validate query st)) k = stateValues st k"
  by (cases "field query ''state''")
     (simp_all add: callback_validate_def Let_def split: sum.splits option.splits)

lemma exchange_facts:
  "timers (snd (callback_exchange e p sid code t st)) = timers st"
  "stateTimeouts (snd (callback_exchange e p sid code t st)) = stateTimeouts st"
  "nextTimer (snd (callback_exchange e p sid code t st)) = nextTimer st"
  "clock (snd (callback_exchange e p sid code t st)) = clock st"
  "stateValues (snd (callback_exchange e p sid code t st)) = stateValues st"
  by (simp_all add: callback_exchange_def failed_def Let_def
      split: sum.splits axios_result.splits)

lemma exchange_store:
  "k \<noteq> sid \<Longrightarrow> userDataStore (snd (callback_exchange e p sid code t st)) k = userDataStore st k"
  by (simp add: callback_exchange_def failed_def Let_def
      split: sum.splits axios_result.splits)

lemma callback_snd:
  "snd (callback_handler e p sid query st) =
     (case fst (callback_validate query st) of
        Inl out \<Rightarrow> snd (callback_validate query st)
      | Inr t \<Rightarrow> snd (callback_exchange e p sid (field query ''code'') t
                       (snd (callback_validate query st))))"
  by (simp add: callback_handler_def split: prod.splits sum.splits)

lemma callback_facts:
  "timers (snd (callback_handler e p sid query st)) = timers st"
  "stateTimeouts (snd (callback_handler e p sid query st)) = stateTimeouts st"
  "nextTimer (snd (callback_handler e p sid query st)) = nextTimer st"
  "clock (snd (callback_handler e p sid query st)) = clock st"
  by (simp_all add: callback_snd exchange_facts validate_facts split: sum.splits)

lemma callback_stateValues:
  "stateValues (snd (callback_handler e p sid query st)) k = None
   \<or> stateValues (snd (callback_handler e p sid query st)) k = stateValues st k"
  using validate_stateValues [of query st k]
  by (simp add: callback_snd exchange_facts split: sum.splits)

lemma callback_store:
  "k \<noteq> sid \<Longrightarrow> userDataStore (snd (callback_handler e p sid query st)) k = userDataStore st k"
  by (simp add: callback_snd exchange_store validate_facts split: sum.splits)

lemma auth_facts:
  "clock (snd (auth_handler e rnd query st)) = clock st"
  "userDataStore (snd (auth_handler e rnd query st)) = userDataStore st"
  by (simp_all add: auth_handler_def Let_def split: sum.splits)

lemma auth_timers:
  "x \<in> set (timers st) \<Longrightarrow> x \<in> set (timers (snd (auth_handler e rnd query st)))"
  by (simp add: auth_handler_def Let_def split: sum.splits)

lemma auth_stateValues:
  "k \<noteq> hex (randomBytes16 rnd) \<Longrightarrow>
     stateValues (snd (auth_handler e rnd query st)) k = stateValues st k"
  by (simp add: auth_handler_def Let_def split: sum.splits)

lemma leaves_store:
  assumes "userDataStore st sid = Some profile" and "\<not> generates sid ev"
  shows "userDataStore (leaves e ev st) sid = Some profile"
  using assms
  by (cases ev)
     (simp_all add: import_frame auth_facts callback_store validate_facts exchange_store
        user_data_frame advance_frame)

lemma step_Some: "step e ev st = Some st1 \<longleftrightarrow> \<not> throws e ev st \<and> st1 = leaves e ev st"
  by (auto simp: step_def)

lemma run_store:
  assumes "userDataStore st sid = Some profile" and "\<forall>ev \<in> set evs. \<not> generates sid ev"
    and "run e evs st = Some st1"
  shows "userDataStore st1 sid = Some profile"
  using assms
proof (induction evs arbitrary: st)
  case Nil
  then show ?case by simp
next
  case (Cons ev evs)
  from Cons.prems(3) obtain st2 where st2: "step e ev st = Some st2" "run e evs st2 = Some st1"
    by (auto split: option.splits)
  then have "userDataStore st2 sid = Some profile"
    using Cons.prems(1,2) by (simp add: step_Some leaves_store)
  then show ?case using Cons.IH [OF _ _ st2(2)] Cons.prems(2) by simp
qed

lemma leaves_expiring:
  assumes "expiring due token st" and "\<not> issues token ev"
  shows "expiring due token (leaves e ev st)"
proof (cases ev)
  case (Import body)
  then show ?thesis using assms by (simp add: import_frame)
next
  case (Auth rnd query)
  then have "token \<noteq> hex (randomBytes16 rnd)" using assms(2) by auto
  then show ?thesis using assms(1) Auth
    by (auto simp: expiring_def auth_facts auth_stateValues split: if_splits intro: auth_timers)
next
  case (Callback p s query)
  then show ?thesis using assms(1) callback_stateValues [of e p s query st token]
    by (auto simp: expiring_def callback_facts split: if_splits)
next
  case (CallbackArrives query)
  then show ?thesis using assms(1) validate_stateValues [of query st token]
    by (auto simp: expiring_def validate_facts split: if_splits)
next
  case (CallbackCompletes p s code t)
  then show ?thesis using assms(1)
    by (auto simp: expiring_def exchange_facts split: if_splits)
next
  case (UserData s)
  then show ?thesis using assms by (simp add: user_data_frame)
next
  case (Advance d)
  show ?thesis
  proof (cases "clock st < due")
    case True
    then obtain h where h: "(h, due, token) \<in> set (timers st)"
      using assms(1) by (auto simp: expiring_def)
    show ?thesis
    proof (cases "clock st + d < due")
      case True
      then show ?thesis using h Advance
        by (auto simp: expiring_def advance_frame)
    next
      case False
      then have "due \<le> clock st + d" by simp
      with h have "\<exists>h due. (h, due, token) \<in> set (timers st) \<and> due \<le> clock st + d"
        by blast
      then have "stateValues (advance d st) token = None"
        by (simp only: advance_stateValues if_True)
      then show ?thesis using False Advance
        by (simp add: expiring_def advance_frame)
    qed
  next
    case False
    then have "stateValues st token = None" using assms(1) by (simp add: expiring_def)
    then show ?thesis using False Advance
      by (simp add: expiring_def advance_frame advance_stateValues)
  qed
qed

lemma run_expiring:
  assumes "expiring due token st" and "\<forall>ev \<in> set evs. \<not> issues token ev"
    and "run e evs st = Some st1"
  shows "expiring due token st1"
  using assms
proof (induction evs arbitrary: st)
  case Nil
  then show ?case by simp
next
  case (Cons ev evs)
  from Cons.prems(3) obtain st2 where st2: "step e ev st = Some st2" "run e evs st2 = Some st1"
    by (auto split: option.splits)
  then have "expiring due token st2"
    using Cons.prems(1,2) by (simp add: step_Some leaves_expiring)
  then show ?case using Cons.IH [OF _ _ st2(2)] Cons.prems(2) by simp
qed

section \<open>The registry invariant and the callback's two outcomes\<close>

lemma auth_stored:
  "stateValues (snd (auth_handler e rnd query st)) k = Some v \<Longrightarrow>
   stateValues st k = Some v
   \<or> (k = hex (randomBytes16 rnd) \<and> v = field query ''templateId'' \<and> truthy v
       \<and> (\<exists>ts. toString v = Inr ts))"
  by (auto simp: auth_handler_def Let_def split: sum.splits if_splits)

lemma leaves_stored:
  "stateValues (leaves e ev st) k = Some v \<Longrightarrow>
   stateValues st k = Some v \<or> (k \<noteq> [] \<and> truthy v \<and> (\<exists>ts. toString v = Inr ts))"
proof (cases ev)
  case (Import body)
  assume "stateValues (leaves e ev st) k = Some v"
  then show ?thesis using Import by (simp add: import_frame)
next
  case (Auth rnd query)
  assume "stateValues (leaves e ev st) k = Some v"
  then show ?thesis using Auth auth_stored [of e rnd query st k v] by auto
next
  case (Callback p s query)
  assume "stateValues (leaves e ev st) k = Some v"
  then show ?thesis using Callback callback_stateValues [of e p s query st k] by auto
next
  case (CallbackArrives query)
  assume "stateValues (leaves e ev st) k = Some v"
  then show ?thesis using CallbackArrives validate_stateValues [of query st k] by auto
next
  case (CallbackCompletes p s code t)
  assume "stateValues (leaves e ev st) k = Some v"
  then show ?thesis using CallbackCompletes by (simp add: exchange_facts)
next
  case (UserData s)
  assume "stateValues (leaves e ev st) k = Some v"
  then show ?thesis using UserData by (simp add: user_data_frame)
next
  case (Advance d)
  assume "stateValues (leaves e ev st) k = Some v"
  then show ?thesis using Advance by (simp add: advance_stateValues split: if_splits)
qed

lemma leaves_registry_ok: "registry_ok st \<Longrightarrow> registry_ok (leaves e ev st)"
  unfolding registry_ok_def using leaves_stored by blast

lemma step_registry_ok: "registry_ok st \<Longrightarrow> step e ev st = Some st1 \<Longrightarrow> registry_ok st1"
  by (simp add: step_Some leaves_registry_ok)

lemma init_registry_ok: "registry_ok init"
  by (simp add: registry_ok_def init_def)

lemma run_registry_ok: "registry_ok st \<Longrightarrow> run e evs st = Some st1 \<Longrightarrow> registry_ok st1"
proof (induction evs arbitrary: st)
  case Nil
  then show ?case by simp
next
  case (Cons ev evs)
  from Cons.prems(2) obtain st2 where st2: "step e ev st = Some st2" "run e evs st2 = Some st1"
    by (auto split: option.splits)
  show ?case
    by (rule Cons.IH [OF step_registry_ok [OF Cons.prems(1) st2(1)] st2(2)])
qed

lemma reachable_registry_ok: "run e evs init = Some st \<Longrightarrow> registry_ok st"
  by (rule run_registry_ok [OF init_registry_ok])

lemma validate_redeems:
  assumes "toString (field query ''code'') = Inr c"
    and "field query ''state'' = JString s" and "s \<noteq> []"
    and "stateValues st s = Some t" and "truthy t" and "toString t = Inr ts"
  shows "callback_validate query st = (Inr t, st\<lparr>stateValues := (stateValues st)(s := None)\<rparr>)"
  using validate_present [OF assms(1-4)] assms(5,6) by simp

lemma callback_redeems:
  assumes "toString (field query ''code'') = Inr c"
    and "field query ''state'' = JString s" and "s \<noteq> []"
    and "stateValues st s = Some t" and "truthy t" and "toString t = Inr ts"
  shows "callback_handler e p sid query st =
     callback_exchange e p sid (field query ''code'') t
       (st\<lparr>stateValues := (stateValues st)(s := None)\<rparr>)"
  by (simp add: callback_handler_def validate_redeems [OF assms])

lemma validate_valid:
  assumes "registry_ok st" and "toString (field query ''code'') = Inr c"
    and "field query ''state'' = JString s" and "stateValues st s = Some t"
  shows "callback_validate query st = (Inr t, st\<lparr>stateValues := (stateValues st)(s := None)\<rparr>)"
proof -
  obtain ts where "s \<noteq> []" and "truthy t" and "toString t = Inr ts"
    using assms(1,4) by (auto simp: registry_ok_def)
  then show ?thesis using validate_redeems [OF assms(2,3) _ assms(4)] by blast
qed

lemma callback_valid:
  assumes "registry_ok st" and "toString (field query ''code'') = Inr c"
    and "field query ''state'' = JString s" and "stateValues st s = Some t"
  shows "callback_handler e p sid query st =
     callback_exchange e p sid (field query ''code'') t
       (st\<lparr>stateValues := (stateValues st)(s := None)\<rparr>)"
  by (simp add: callback_handler_def validate_valid [OF assms])

lemma callback_absent:
  assumes "toString (field query ''code'') = Inr c"
    and "toString (field query ''state'') = Inr s"
    and "\<not> truthy (field query ''state'') \<or> \<not> has (stateValues st) (field query ''state'')"
  shows "callback_handler e p sid query st = (Responded (Json 400 (JObject
     [(js ''error'', JString (js ''Invalid state. Potential CSRF attack detected.''))])), st)"
  by (simp add: callback_handler_def validate_absent [OF assms])

lemma exchange_success:
  assumes "toString t = Inr ts"
    and "accessToken_endpoint p
       [(js ''grant_type'', JString (js ''authorization_code'')), (js ''code'', code),
        (js ''redirect_uri'', JString (REDIRECT_URI e)), (js ''client_id'', CLIENT_ID e),
        (js ''client_secret'', CLIENT_SECRET e)] = Resolved (JObject tokenData)"
    and "toString (field tokenData ''access_token'') = Inr token"
    and "userinfo_endpoint p (js ''Bearer '' @ token) = Resolved (JObject profile)"
  shows "callback_exchange e p sid code t st =
     (Responded (Redirect (js ''http://localhost:5173/details/'' @ ts @ js ''?sessionId='' @ sid)),
      st\<lparr>userDataStore := (userDataStore st)(sid \<mapsto> JObject
          [(js ''id'', t),
           (js ''fullName'', field profile ''name''),
           (js ''firstName'', field profile ''given_name''),
           (js ''lastName'', field profile ''family_name''),
           (js ''profilePicture'', field profile ''picture''),
           (js ''email'',
              if truthy (field profile ''email'') then field profile ''email'' else JNull),
           (js ''emailVerified'',
              if truthy (field profile ''email_verified'') then field profile ''email_verified''
              else JBool False)])\<rparr>)"
  using assms by (simp add: callback_exchange_def make_userData_def js_or_def)

lemma exchange_userinfo_rejected:
  assumes "accessToken_endpoint p
       [(js ''grant_type'', JString (js ''authorization_code'')), (js ''code'', code),
        (js ''redirect_uri'', JString (REDIRECT_URI e)), (js ''client_id'', CLIENT_ID e),
        (js ''client_secret'', CLIENT_SECRET e)] = Resolved (JObject tokenData)"
    and "toString (field tokenData ''access_token'') = Inr token"
    and "userinfo_endpoint p (js ''Bearer '' @ token) = Rejected"
  shows "callback_exchange e p sid code t st =
     (Responded (Send 500 (js ''Failed to fetch LinkedIn data'')), st)"
  using assms by (simp add: callback_exchange_def failed_def)

section \<open>The example requests\<close>

lemma encode_default_redirect:
  "encode (REDIRECT_URI env0) =
     Inr (js ''http%3A%2F%2Flocalhost%3A5000%2Fapi%2Flinkedin%2Fcallback'')"
  by (simp add: REDIRECT_URI_def env0_def js_def unreserved_def isLead_def isTrail_def
      escape_def utf8_def percent_def hexDigit_def)

lemma field_t1_query [simp]: "field t1_query ''templateId'' = JString (js ''t1'')"
  by (simp add: field_def t1_query_def)

lemma field_cb_query [simp]:
  "field cb_query ''code'' = JString (js ''c0de'')"
  "field cb_query ''state'' = JString token0"
  "field cb_query_no_code ''code'' = JUndefined"
  "field cb_query_no_code ''state'' = JString token0"
  "field cb_query_unprintable ''code'' = JObject [(js ''toString'', JString (js ''x''))]"
  "field cb_query_unprintable ''state'' = JString token0"
  by (simp_all add: field_def cb_query_def cb_query_no_code_def cb_query_unprintable_def)

lemma issued_eq:
  "issued = init\<lparr>stateValues := (stateValues init)(token0 \<mapsto> JString (js ''t1'')),
         timers := timers init @ [(nextTimer init, clock init + 300000, token0)],
         nextTimer := Suc (nextTimer init),
         stateTimeouts := (stateTimeouts init)(token0 \<mapsto> nextTimer init)\<rparr>"
  unfolding issued_def token0_def
  by (subst auth_issue [OF _ _ encode_default_redirect]) simp_all

lemma issued_redirect:
  "\<exists>url. auth_handler env0 0 t1_query init = (Responded (Redirect url), issued)"
  unfolding issued_eq token0_def
  by (subst auth_issue [OF _ _ encode_default_redirect]) simp_all

lemma issued_facts [simp]:
  "stateValues issued token0 = Some (JString (js ''t1''))"
  "timers issued = [(0, 300000, token0)]"
  "stateTimeouts issued token0 = Some 0"
  "clock issued = 0"
  "userDataStore issued = Map.empty"
  by (simp_all add: issued_eq init_def)

lemma issued_registry_ok [simp]: "registry_ok issued"
  using leaves_registry_ok [OF init_registry_ok, of env0 "Auth 0 t1_query"]
  by (simp add: issued_def)

lemma token0_nonempty [simp]: "token0 \<noteq> []"
  by (simp add: token0_def)

lemma token0_eq: "token0 = js ''00000000000000000000000000000000''"
  by (simp add: token0_def hex_def randomBytes16_def hexDigit_def js_def upt16)

lemma jane_facts:
  "accessToken_endpoint jane params = Resolved (JObject [(js ''access_token'', JString (js ''tok''))])"
  "userinfo_endpoint jane a = Resolved (JObject jane_profile)"
  "accessToken_endpoint blank params = Resolved (JObject [(js ''access_token'', JString (js ''tok''))])"
  "userinfo_endpoint blank a = Resolved (JObject blank_profile)"
  "accessToken_endpoint down params = Rejected"
  "userinfo_endpoint down a = Rejected"
  by (simp_all add: jane_def blank_def down_def)

lemma access_token_tok:
  "toString (field [(js ''access_token'', JString (js ''tok''))] ''access_token'') = Inr (js ''tok'')"
  by (simp add: field_def)

lemma profile_fields [simp]:
  "field jane_profile ''name'' = JString (js ''Jane Doe'')"
  "field jane_profile ''given_name'' = JString (js ''Jane'')"
  "field jane_profile ''family_name'' = JString (js ''Doe'')"
  "field jane_profile ''picture'' = JUndefined"
  "field jane_profile ''email'' = JString (js ''j@d.com'')"
  "field jane_profile ''email_verified'' = JBool True"
  "field blank_profile ''name'' = JString (js ''Jane Doe'')"
  "field blank_profile ''given_name'' = JString (js ''Jane'')"
  "field blank_profile ''family_name'' = JString (js ''Doe'')"
  "field blank_profile ''picture'' = JUndefined"
  "field blank_profile ''email'' = JString []"
  "field blank_profile ''email_verified'' = JBool False"
  by (simp_all add: field_def jane_profile_def blank_profile_def)

lemma created_eq:
  "callback_handler env0 jane sid0 cb_query issued =
     (Responded (Redirect
        (js ''http://localhost:5173/details/'' @ js ''t1'' @ js ''?sessionId='' @ sid0)),
      issued\<lparr>stateValues := (stateValues issued)(token0 := None),
         userDataStore := (userDataStore issued)(sid0 \<mapsto> jane_stored)\<rparr>)"
proof -
  have "callback_handler env0 jane sid0 cb_query issued =
      callback_exchange env0 jane sid0 (field cb_query ''code'') (JString (js ''t1''))
        (issued\<lparr>stateValues := (stateValues issued)(token0 := None)\<rparr>)"
    by (rule callback_valid [OF issued_registry_ok _ field_cb_query(2) issued_facts(1)]) simp
  also have "\<dots> = (Responded (Redirect
        (js ''http://localhost:5173/details/'' @ js ''t1'' @ js ''?sessionId='' @ sid0)),
      issued\<lparr>stateValues := (stateValues issued)(token0 := None),
         userDataStore := (userDataStore issued)(sid0 \<mapsto> jane_stored)\<rparr>)"
    by (subst exchange_success [OF _ jane_facts(1) access_token_tok jane_facts(2)])
       (simp_all add: jane_stored_def)
  finally show ?thesis .
qed

lemma created_store: "userDataStore created sid0 = Some jane_stored"
  by (simp add: created_def created_eq)

lemmas encode_eval = js_def unreserved_def isLead_def isTrail_def escape_def utf8_def
  percent_def hexDigit_def

lemma callback_unprintable_code:
  "toString (field query ''code'') = Inl x \<Longrightarrow>
   callback_handler e p sid query st = (Threw x, st)"
  by (simp add: callback_handler_def callback_validate_def Let_def)

lemma unprintable_code [simp]:
  "toString (field cb_query_unprintable ''code'') = Inl TypeError"
  by simp

lemma issued_step: "step env0 (Auth 0 t1_query) init = Some issued"
proof -
  obtain url where "auth_handler env0 0 t1_query init = (Responded (Redirect url), issued)"
    using issued_redirect by blast
  then show ?thesis by (simp add: step_def)
qed

lemma created_step: "step env0 (Callback jane sid0 cb_query) issued = Some created"
  by (simp add: step_def created_def created_eq)

lemma created_facts [simp]:
  "created = issued\<lparr>stateValues := (stateValues issued)(token0 := None),
         userDataStore := (userDataStore issued)(sid0 \<mapsto> jane_stored)\<rparr>"
  by (simp add: created_def created_eq)

lemma expired_facts:
  "stateValues (advance 300000 issued) token0 = None"
  "step env0 (Advance 300000) issued = Some (advance 300000 issued)"
  by (simp_all add: advance_stateValues step_def)

lemma lookup_run:
  "run env0 [UserData sid0, Advance 300000, Import (JObject [])] created =
     Some (advance 300000 created)"
proof -
  have "step env0 (UserData sid0) created = Some created"
    by (simp add: step_def user_data_handler_def split: option.splits)
  moreover have "step env0 (Advance 300000) created = Some (advance 300000 created)"
    by (simp add: step_def)
  moreover have "step env0 (Import (JObject [])) (advance 300000 created) =
      Some (advance 300000 created)"
    by (simp add: step_def import_handler_def field_def)
  ultimately show ?thesis by simp
qed

lemma run_ends_at_throw:
  "throws e ev st \<Longrightarrow> run e (ev # evs) st = None"
  by (simp add: step_def)



section \<open>State tokens are redeemed at most once\<close>

text \<open>
  Where claim C1 holds. When an auth request has issued a state token (it answered with
  the redirect), a callback request that presents the token straight away redeems it: the
  first part of the handler yields the \<^verbatim>\<open>templateId\<close> of the auth request and removes the
  entry, and the handler goes on to the exchange with that \<^verbatim>\<open>templateId\<close>. Any second
  callback request with the same token, whatever the first one's exchange gave, is
  answered 400, if the \<^verbatim>\<open>code\<close> of each request is one that line 114 can print.
\<close>

lemma state_token_redeemed_once:
  assumes "auth_handler e rnd query st = (Responded (Redirect url), st1)"
    and "field q ''state'' = JString (hex (randomBytes16 rnd))"
    and "toString (field q ''code'') = Inr c"
    and "field q' ''state'' = JString (hex (randomBytes16 rnd))"
    and "toString (field q' ''code'') = Inr c'"
  shows "callback_validate q st1 =
           (Inr (field query ''templateId''),
            st1\<lparr>stateValues := (stateValues st1)(hex (randomBytes16 rnd) := None)\<rparr>)
       \<and> callback_handler e p sid q st1 =
           callback_exchange e p sid (field q ''code'') (field query ''templateId'')
             (st1\<lparr>stateValues := (stateValues st1)(hex (randomBytes16 rnd) := None)\<rparr>)
       \<and> callback_handler e p' sid' q' (snd (callback_handler e p sid q st1)) =
           (Responded (Json 400 (JObject
              [(js ''error'', JString (js ''Invalid state. Potential CSRF attack detected.''))])),
            snd (callback_handler e p sid q st1))"
proof -
  let ?token = "hex (randomBytes16 rnd)"
  let ?t = "field query ''templateId''"
  obtain ts where t: "truthy ?t" "toString ?t = Inr ts"
    using auth_redirect [OF assms(1)] by blast
  have stored: "stateValues st1 ?token = Some ?t"
    using auth_redirect [OF assms(1)] by simp
  have first: "callback_validate q st1 =
      (Inr ?t, st1\<lparr>stateValues := (stateValues st1)(?token := None)\<rparr>)"
    by (rule validate_redeems [OF assms(3) assms(2) token_nonempty stored t])
  have whole: "callback_handler e p sid q st1 =
      callback_exchange e p sid (field q ''code'') ?t
        (st1\<lparr>stateValues := (stateValues st1)(?token := None)\<rparr>)"
    by (rule callback_redeems [OF assms(3) assms(2) token_nonempty stored t])
  have gone: "stateValues (snd (callback_handler e p sid q st1)) ?token = None"
    by (simp add: whole exchange_facts)
  have second: "callback_handler e p' sid' q' (snd (callback_handler e p sid q st1)) =
      (Responded (Json 400 (JObject
         [(js ''error'', JString (js ''Invalid state. Potential CSRF attack detected.''))])),
       snd (callback_handler e p sid q st1))"
    by (rule callback_absent [OF assms(5)]) (simp_all add: assms(4) gone)
  show ?thesis using first whole second by simp
qed

text \<open>
  Claim C1 at a second callback request whose \<^verbatim>\<open>code\<close> is an object with an own property
  \<^verbatim>\<open>toString\<close>. The first request redeems the example token and is answered with the
  redirect. The second presents the same token: line 114 converts its \<^verbatim>\<open>code\<close> to a
  string before the state test of line 117 and outside any \<^verbatim>\<open>try\<close>, the conversion
  throws a TypeError, no 400 is written and the run is over.
\<close>

theorem second_callback_unprintable_code_throws:
  "callback_handler env0 jane sid0 cb_query issued =
     (Responded (Redirect
        (js ''http://localhost:5173/details/'' @ js ''t1'' @ js ''?sessionId='' @ sid0)),
      created)
   \<and> callback_handler env0 jane sid0 cb_query_unprintable created = (Threw TypeError, created)
   \<and> run env0 [Auth 0 t1_query, Callback jane sid0 cb_query,
                Callback jane sid0 cb_query_unprintable] init = None"
proof -
  have second: "callback_handler env0 jane sid0 cb_query_unprintable created =
      (Threw TypeError, created)"
    by (rule callback_unprintable_code) simp
  then have "step env0 (Callback jane sid0 cb_query_unprintable) created = None"
    by (simp add: step_def)
  then have "run env0 [Auth 0 t1_query, Callback jane sid0 cb_query,
      Callback jane sid0 cb_query_unprintable] init = None"
    by (simp add: issued_step created_step)
  then show ?thesis using second created_eq by simp
qed

section \<open>A successful callback creates one session\<close>

text \<open>
  Claim C2, as amended. In a state that satisfies the registry invariant, a callback
  request with a registered state token, whose token request resolves with an object and
  whose profile request resolves with an object, stores under the new session id exactly
  the profile below and redirects to the frontend URL with the \<^verbatim>\<open>templateId\<close> and the
  session id. \<^verbatim>\<open>email\<close> is \<^verbatim>\<open>null\<close> and \<^verbatim>\<open>emailVerified\<close> is \<^verbatim>\<open>false\<close> whenever the
  provider's value is falsy (missing, but also an empty string, \<^verbatim>\<open>null\<close> or 0), since
  lines 163 and 164 use \<^verbatim>\<open>||\<close>. Nothing else of the state changes but the redeemed token.
\<close>

theorem callback_creates_session:
  assumes "registry_ok st"
    and "field q ''state'' = JString s"
    and "stateValues st s = Some t"
    and "toString t = Inr ts"
    and "toString (field q ''code'') = Inr c"
    and "accessToken_endpoint p
       [(js ''grant_type'', JString (js ''authorization_code'')), (js ''code'', field q ''code''),
        (js ''redirect_uri'', JString (REDIRECT_URI e)), (js ''client_id'', CLIENT_ID e),
        (js ''client_secret'', CLIENT_SECRET e)] = Resolved (JObject tokenData)"
    and "toString (field tokenData ''access_token'') = Inr token"
    and "userinfo_endpoint p (js ''Bearer '' @ token) = Resolved (JObject profile)"
  shows "callback_handler e p sid q st =
     (Responded (Redirect (js ''http://localhost:5173/details/'' @ ts @ js ''?sessionId='' @ sid)),
      st\<lparr>stateValues := (stateValues st)(s := None),
         userDataStore := (userDataStore st)(sid \<mapsto> JObject
          [(js ''id'', t),
           (js ''fullName'', field profile ''name''),
           (js ''firstName'', field profile ''given_name''),
           (js ''lastName'', field profile ''family_name''),
           (js ''profilePicture'', field profile ''picture''),
           (js ''email'',
              if truthy (field profile ''email'') then field profile ''email'' else JNull),
           (js ''emailVerified'',
              if truthy (field profile ''email_verified'') then field profile ''email_verified''
              else JBool False)])\<rparr>)"
  by (simp add: callback_valid [OF assms(1) assms(5) assms(2) assms(3)]
      exchange_success [OF assms(4) assms(6) assms(7) assms(8)])

text \<open>The theorem at the example callback with the full profile.\<close>

theorem callback_creates_session_witness:
  "callback_handler env0 jane sid0 cb_query issued =
     (Responded (Redirect (js ''http://localhost:5173/details/'' @ js ''t1'' @ js ''?sessionId='' @ sid0)),
      issued\<lparr>stateValues := (stateValues issued)(token0 := None),
         userDataStore := (userDataStore issued)(sid0 \<mapsto> JObject
          [(js ''id'', JString (js ''t1'')),
           (js ''fullName'', JString (js ''Jane Doe'')),
           (js ''firstName'', JString (js ''Jane'')),
           (js ''lastName'', JString (js ''Doe'')),
           (js ''profilePicture'', JUndefined),
           (js ''email'', JString (js ''j@d.com'')),
           (js ''emailVerified'', JBool True)])\<rparr>)"
proof -
  have t: "toString (JString (js ''t1'')) = Inr (js ''t1'')" by simp
  have c: "toString (field cb_query ''code'') = Inr (js ''c0de'')" by simp
  show ?thesis
    using callback_creates_session [OF issued_registry_ok field_cb_query(2) issued_facts(1) t c
        jane_facts(1) access_token_tok jane_facts(2), of env0 sid0]
    by simp
qed

text \<open>
  Claim C2 as stated fails where the provider's \<^verbatim>\<open>email\<close> is present and empty: the
  stored \<^verbatim>\<open>email\<close> is \<^verbatim>\<open>null\<close>, not the provider's value.
\<close>

theorem callback_blank_email_counterexample:
  "userDataStore (snd (callback_handler env0 blank sid0 cb_query issued)) sid0 =
     Some (JObject
          [(js ''id'', JString (js ''t1'')),
           (js ''fullName'', JString (js ''Jane Doe'')),
           (js ''firstName'', JString (js ''Jane'')),
           (js ''lastName'', JString (js ''Doe'')),
           (js ''profilePicture'', JUndefined),
           (js ''email'', JNull),
           (js ''emailVerified'', JBool False)])
   \<and> field blank_profile ''email'' = JString []"
proof -
  have "callback_handler env0 blank sid0 cb_query issued =
      callback_exchange env0 blank sid0 (field cb_query ''code'') (JString (js ''t1''))
        (issued\<lparr>stateValues := (stateValues issued)(token0 := None)\<rparr>)"
    by (rule callback_valid [OF issued_registry_ok _ field_cb_query(2) issued_facts(1)]) simp
  also have "\<dots> = (Responded (Redirect
        (js ''http://localhost:5173/details/'' @ js ''t1'' @ js ''?sessionId='' @ sid0)),
      issued\<lparr>stateValues := (stateValues issued)(token0 := None),
         userDataStore := (userDataStore issued)(sid0 \<mapsto> JObject
          [(js ''id'', JString (js ''t1'')),
           (js ''fullName'', JString (js ''Jane Doe'')),
           (js ''firstName'', JString (js ''Jane'')),
           (js ''lastName'', JString (js ''Doe'')),
           (js ''profilePicture'', JUndefined),
           (js ''email'', JNull),
           (js ''emailVerified'', JBool False)])\<rparr>)"
    by (subst exchange_success [OF _ jane_facts(3) access_token_tok jane_facts(4)])
       simp_all
  finally show ?thesis by simp
qed



section \<open>An unredeemed state token expires\<close>

text \<open>
  Where claim C3 holds. After an auth request has issued a state token, let any events
  follow in which no auth request draws the same token again and no handler throws. Once
  the clock is 5 minutes or more past the issue, the token is not in the registry, and a
  callback request that presents it is answered 400, if its \<^verbatim>\<open>code\<close> is one that line 114
  can print. (The token need not have stayed unredeemed: a redeemed one is gone as well.)
\<close>

lemma unredeemed_token_expires:
  assumes "auth_handler e rnd query st = (Responded (Redirect url), st1)"
    and "\<forall>ev \<in> set evs. \<not> issues (hex (randomBytes16 rnd)) ev"
    and "run e evs st1 = Some st2"
    and "clock st1 + 5 * 60 * 1000 \<le> clock st2"
    and "field q ''state'' = JString (hex (randomBytes16 rnd))"
    and "toString (field q ''code'') = Inr c"
  shows "stateValues st2 (hex (randomBytes16 rnd)) = None
       \<and> callback_handler e p sid q st2 =
           (Responded (Json 400 (JObject
              [(js ''error'', JString (js ''Invalid state. Potential CSRF attack detected.''))])),
            st2)"
proof -
  let ?token = "hex (randomBytes16 rnd)"
  let ?due = "clock st1 + 5 * 60 * 1000"
  have st1: "st1 = st\<lparr>stateValues := (stateValues st)(?token \<mapsto> field query ''templateId''),
         timers := timers st @ [(nextTimer st, clock st + 300000, ?token)],
         nextTimer := Suc (nextTimer st),
         stateTimeouts := (stateTimeouts st)(?token \<mapsto> nextTimer st)\<rparr>"
    using auth_redirect [OF assms(1)] by simp
  have "expiring ?due ?token st1"
    by (subst st1, subst st1) (auto simp: expiring_def)
  then have "expiring ?due ?token st2"
    using assms(2,3) by (rule run_expiring)
  then have gone: "stateValues st2 ?token = None"
    using assms(4) by (simp add: expiring_def)
  have "callback_handler e p sid q st2 =
      (Responded (Json 400 (JObject
         [(js ''error'', JString (js ''Invalid state. Potential CSRF attack detected.''))])),
       st2)"
    by (rule callback_absent [OF assms(6)]) (simp_all add: assms(5) gone)
  then show ?thesis using gone by simp
qed

text \<open>
  Claim C3 at a later callback request whose \<^verbatim>\<open>code\<close> is an object with an own property
  \<^verbatim>\<open>toString\<close>. Five minutes after the example token was issued its entry is removed, as
  the claim says. The request that then presents the token is not answered 400: line 114
  throws a TypeError before the state test, no response is written and the run is over.
\<close>

theorem expired_token_unprintable_code_throws:
  "run env0 [Auth 0 t1_query, Advance 300000] init = Some (advance 300000 issued)
   \<and> stateValues (advance 300000 issued) token0 = None
   \<and> callback_handler env0 jane sid0 cb_query_unprintable (advance 300000 issued) =
       (Threw TypeError, advance 300000 issued)
   \<and> run env0 [Auth 0 t1_query, Advance 300000,
                Callback jane sid0 cb_query_unprintable] init = None"
proof -
  have thrown: "callback_handler env0 jane sid0 cb_query_unprintable (advance 300000 issued) =
      (Threw TypeError, advance 300000 issued)"
    by (rule callback_unprintable_code) simp
  then have "step env0 (Callback jane sid0 cb_query_unprintable) (advance 300000 issued) = None"
    by (simp add: step_def)
  then show ?thesis using thrown by (simp add: issued_step expired_facts)
qed





section \<open>Redeeming a token does not cancel its timer\<close>

text \<open>
  Claim C4 as stated fails: the handler never calls \<^verbatim>\<open>clearTimeout\<close> and never deletes
  from \<^verbatim>\<open>stateTimeouts\<close>. After the example token is redeemed, its timer is still pending
  and its handle is still registered.
\<close>

theorem redeemed_token_timer_counterexample:
  "stateValues (snd (callback_handler env0 jane sid0 cb_query issued)) token0 = None
   \<and> timers (snd (callback_handler env0 jane sid0 cb_query issued)) = [(0, 300000, token0)]
   \<and> stateTimeouts (snd (callback_handler env0 jane sid0 cb_query issued)) token0 = Some 0"
proof -
  have "callback_handler env0 jane sid0 cb_query issued =
      callback_exchange env0 jane sid0 (field cb_query ''code'') (JString (js ''t1''))
        (issued\<lparr>stateValues := (stateValues issued)(token0 := None)\<rparr>)"
    by (rule callback_valid [OF issued_registry_ok _ field_cb_query(2) issued_facts(1)]) simp
  then show ?thesis by (simp add: exchange_facts)
qed

text \<open>
  Claim C4, as amended. When the callback redeems a registered state token, it removes the
  registry entry and nothing more: the pending timers and \<^verbatim>\<open>stateTimeouts\<close> are what they
  were, so the token's timer stays scheduled and its handle stays registered.
\<close>

theorem callback_keeps_timer:
  assumes "registry_ok st"
    and "field q ''state'' = JString s"
    and "stateValues st s = Some t"
    and "toString (field q ''code'') = Inr c"
  shows "stateValues (snd (callback_handler e p sid q st)) s = None
       \<and> timers (snd (callback_handler e p sid q st)) = timers st
       \<and> stateTimeouts (snd (callback_handler e p sid q st)) = stateTimeouts st"
  by (simp add: callback_valid [OF assms(1) assms(4) assms(2) assms(3)] exchange_facts)

text \<open>The theorem at the example token, with the provider that rejects.\<close>

theorem callback_keeps_timer_witness:
  "stateValues (snd (callback_handler env0 down sid0 cb_query issued)) token0 = None
   \<and> timers (snd (callback_handler env0 down sid0 cb_query issued)) = timers issued
   \<and> stateTimeouts (snd (callback_handler env0 down sid0 cb_query issued)) = stateTimeouts issued"
proof -
  have c: "toString (field cb_query ''code'') = Inr (js ''c0de'')" by simp
  show ?thesis
    by (rule callback_keeps_timer [OF issued_registry_ok field_cb_query(2) issued_facts(1) c])
qed

section \<open>A callback without a code\<close>

text \<open>
  Claim C5 as stated fails: the handler never tests \<^verbatim>\<open>code\<close>. With the example token and
  no \<^verbatim>\<open>code\<close>, the handler redeems the token and sends the token request, and when the
  provider rejects it the answer is 500.
\<close>

theorem missing_code_counterexample:
  "field cb_query_no_code ''code'' = JUndefined
   \<and> callback_handler env0 down sid0 cb_query_no_code issued =
       (Responded (Send 500 (js ''Failed to fetch LinkedIn data'')),
        issued\<lparr>stateValues := (stateValues issued)(token0 := None)\<rparr>)"
proof -
  have "callback_handler env0 down sid0 cb_query_no_code issued =
      callback_exchange env0 down sid0 (field cb_query_no_code ''code'') (JString (js ''t1''))
        (issued\<lparr>stateValues := (stateValues issued)(token0 := None)\<rparr>)"
    by (rule callback_valid [OF issued_registry_ok _ field_cb_query(4) issued_facts(1)]) simp
  then show ?thesis by (simp add: exchange_rejected jane_facts)
qed

text \<open>
  Claim C5, as amended. For a callback request without \<^verbatim>\<open>code\<close>, in a state that
  satisfies the registry invariant. If the state parameter is one that line 114 can print
  and is missing, empty or not registered, the answer is 400. If it is a registered token,
  the handler redeems it and runs the exchange with \<^verbatim>\<open>code\<close> undefined: the answer is the
  500 of line 176 when the token request is rejected and when the profile request is
  rejected, the redirect when both resolve with objects, and in every case a 302 or a 500,
  never 400.
\<close>

theorem callback_missing_code:
  assumes "field q ''code'' = JUndefined"
    and "registry_ok st"
  shows "(toString (field q ''state'') = Inr x
          \<and> (\<not> truthy (field q ''state'') \<or> \<not> has (stateValues st) (field q ''state''))
          \<longrightarrow> callback_handler e p sid q st =
                (Responded (Json 400 (JObject
                   [(js ''error'',
                     JString (js ''Invalid state. Potential CSRF attack detected.''))])), st))
       \<and> (field q ''state'' = JString s \<and> stateValues st s = Some t
          \<longrightarrow> callback_handler e p sid q st =
                callback_exchange e p sid JUndefined t
                  (st\<lparr>stateValues := (stateValues st)(s := None)\<rparr>)
              \<and> (\<exists>r. fst (callback_handler e p sid q st) = Responded r
                      \<and> (status r = 302 \<or> status r = 500))
              \<and> (accessToken_endpoint p
                    [(js ''grant_type'', JString (js ''authorization_code'')),
                     (js ''code'', JUndefined),
                     (js ''redirect_uri'', JString (REDIRECT_URI e)),
                     (js ''client_id'', CLIENT_ID e),
                     (js ''client_secret'', CLIENT_SECRET e)] = Rejected
                  \<longrightarrow> callback_handler e p sid q st =
                        (Responded (Send 500 (js ''Failed to fetch LinkedIn data'')),
                         st\<lparr>stateValues := (stateValues st)(s := None)\<rparr>))
              \<and> (accessToken_endpoint p
                    [(js ''grant_type'', JString (js ''authorization_code'')),
                     (js ''code'', JUndefined),
                     (js ''redirect_uri'', JString (REDIRECT_URI e)),
                     (js ''client_id'', CLIENT_ID e),
                     (js ''client_secret'', CLIENT_SECRET e)] = Resolved (JObject tokenData)
                  \<and> toString (field tokenData ''access_token'') = Inr token
                  \<and> userinfo_endpoint p (js ''Bearer '' @ token) = Rejected
                  \<longrightarrow> callback_handler e p sid q st =
                        (Responded (Send 500 (js ''Failed to fetch LinkedIn data'')),
                         st\<lparr>stateValues := (stateValues st)(s := None)\<rparr>))
              \<and> (accessToken_endpoint p
                    [(js ''grant_type'', JString (js ''authorization_code'')),
                     (js ''code'', JUndefined),
                     (js ''redirect_uri'', JString (REDIRECT_URI e)),
                     (js ''client_id'', CLIENT_ID e),
                     (js ''client_secret'', CLIENT_SECRET e)] = Resolved (JObject tokenData)
                  \<and> toString (field tokenData ''access_token'') = Inr token
                  \<and> userinfo_endpoint p (js ''Bearer '' @ token) = Resolved (JObject profile)
                  \<and> toString t = Inr ts
                  \<longrightarrow> fst (callback_handler e p sid q st) =
                        Responded (Redirect
                          (js ''http://localhost:5173/details/'' @ ts @ js ''?sessionId='' @ sid))))"
proof -
  have code: "toString (field q ''code'') = Inr (js ''undefined'')"
    by (simp add: assms(1))
  have absent: "callback_handler e p sid q st =
      (Responded (Json 400 (JObject
         [(js ''error'', JString (js ''Invalid state. Potential CSRF attack detected.''))])), st)"
    if "toString (field q ''state'') = Inr x"
      and "\<not> truthy (field q ''state'') \<or> \<not> has (stateValues st) (field q ''state'')"
    using callback_absent [OF code that] .
  have present: "callback_handler e p sid q st =
      callback_exchange e p sid JUndefined t (st\<lparr>stateValues := (stateValues st)(s := None)\<rparr>)"
    if "field q ''state'' = JString s" and "stateValues st s = Some t"
    using callback_valid [OF assms(2) code that] by (simp add: assms(1))
  show ?thesis
  proof (intro conjI impI)
    assume "toString (field q ''state'') = Inr x
        \<and> (\<not> truthy (field q ''state'') \<or> \<not> has (stateValues st) (field q ''state''))"
    then show "callback_handler e p sid q st =
        (Responded (Json 400 (JObject
           [(js ''error'', JString (js ''Invalid state. Potential CSRF attack detected.''))])), st)"
      using absent by blast
  next
    assume "field q ''state'' = JString s \<and> stateValues st s = Some t"
    then show "callback_handler e p sid q st =
        callback_exchange e p sid JUndefined t (st\<lparr>stateValues := (stateValues st)(s := None)\<rparr>)"
      using present by blast
  next
    assume "field q ''state'' = JString s \<and> stateValues st s = Some t"
    then show "\<exists>r. fst (callback_handler e p sid q st) = Responded r
        \<and> (status r = 302 \<or> status r = 500)"
      using present exchange_status by simp
  next
    assume "field q ''state'' = JString s \<and> stateValues st s = Some t"
      and "accessToken_endpoint p
          [(js ''grant_type'', JString (js ''authorization_code'')), (js ''code'', JUndefined),
           (js ''redirect_uri'', JString (REDIRECT_URI e)), (js ''client_id'', CLIENT_ID e),
           (js ''client_secret'', CLIENT_SECRET e)] = Rejected"
    then show "callback_handler e p sid q st =
        (Responded (Send 500 (js ''Failed to fetch LinkedIn data'')),
         st\<lparr>stateValues := (stateValues st)(s := None)\<rparr>)"
      using present by (simp add: exchange_rejected)
  next
    assume "field q ''state'' = JString s \<and> stateValues st s = Some t"
      and "accessToken_endpoint p
          [(js ''grant_type'', JString (js ''authorization_code'')), (js ''code'', JUndefined),
           (js ''redirect_uri'', JString (REDIRECT_URI e)), (js ''client_id'', CLIENT_ID e),
           (js ''client_secret'', CLIENT_SECRET e)] = Resolved (JObject tokenData)
        \<and> toString (field tokenData ''access_token'') = Inr token
        \<and> userinfo_endpoint p (js ''Bearer '' @ token) = Rejected"
    then show "callback_handler e p sid q st =
        (Responded (Send 500 (js ''Failed to fetch LinkedIn data'')),
         st\<lparr>stateValues := (stateValues st)(s := None)\<rparr>)"
      using present by (simp add: exchange_userinfo_rejected)
  next
    assume "field q ''state'' = JString s \<and> stateValues st s = Some t"
      and "accessToken_endpoint p
          [(js ''grant_type'', JString (js ''authorization_code'')), (js ''code'', JUndefined),
           (js ''redirect_uri'', JString (REDIRECT_URI e)), (js ''client_id'', CLIENT_ID e),
           (js ''client_secret'', CLIENT_SECRET e)] = Resolved (JObject tokenData)
        \<and> toString (field tokenData ''access_token'') = Inr token
        \<and> userinfo_endpoint p (js ''Bearer '' @ token) = Resolved (JObject profile)
        \<and> toString t = Inr ts"
    then show "fst (callback_handler e p sid q st) =
        Responded (Redirect
          (js ''http://localhost:5173/details/'' @ ts @ js ''?sessionId='' @ sid))"
      using present by (simp add: exchange_success)
  qed
qed





text \<open>The theorem at the server with no token issued and at the example token, with the
  provider that rejects, the one that rejects the profile request and the one that answers
  both.\<close>

theorem callback_missing_code_witness:
  "callback_handler env0 down sid0 cb_query_no_code init =
     (Responded (Json 400 (JObject
        [(js ''error'', JString (js ''Invalid state. Potential CSRF attack detected.''))])), init)
   \<and> callback_handler env0 down sid0 cb_query_no_code issued =
     (Responded (Send 500 (js ''Failed to fetch LinkedIn data'')),
      issued\<lparr>stateValues := (stateValues issued)(token0 := None)\<rparr>)
   \<and> callback_handler env0 token_only sid0 cb_query_no_code issued =
     (Responded (Send 500 (js ''Failed to fetch LinkedIn data'')),
      issued\<lparr>stateValues := (stateValues issued)(token0 := None)\<rparr>)
   \<and> fst (callback_handler env0 jane sid0 cb_query_no_code issued) =
     Responded (Redirect (js ''http://localhost:5173/details/'' @ js ''t1'' @ js ''?sessionId='' @ sid0))"
proof -
  let ?params = "[(js ''grant_type'', JString (js ''authorization_code'')), (js ''code'', JUndefined),
       (js ''redirect_uri'', JString (REDIRECT_URI env0)), (js ''client_id'', CLIENT_ID env0),
       (js ''client_secret'', CLIENT_SECRET env0)]"
  have present: "field cb_query_no_code ''state'' = JString token0
      \<and> stateValues issued token0 = Some (JString (js ''t1''))"
    by simp
  have absent: "toString (field cb_query_no_code ''state'') = Inr token0
      \<and> (\<not> truthy (field cb_query_no_code ''state'')
          \<or> \<not> has (stateValues init) (field cb_query_no_code ''state''))"
    by (simp add: init_def)
  have rejected: "accessToken_endpoint down ?params = Rejected"
    by (simp add: jane_facts)
  have half: "accessToken_endpoint token_only ?params
        = Resolved (JObject [(js ''access_token'', JString (js ''tok''))])
      \<and> toString (field [(js ''access_token'', JString (js ''tok''))] ''access_token'')
        = Inr (js ''tok'')
      \<and> userinfo_endpoint token_only (js ''Bearer '' @ js ''tok'') = Rejected"
    by (simp add: token_only_def access_token_tok)
  have full: "accessToken_endpoint jane ?params
        = Resolved (JObject [(js ''access_token'', JString (js ''tok''))])
      \<and> toString (field [(js ''access_token'', JString (js ''tok''))] ''access_token'')
        = Inr (js ''tok'')
      \<and> userinfo_endpoint jane (js ''Bearer '' @ js ''tok'') = Resolved (JObject jane_profile)
      \<and> toString (JString (js ''t1'')) = Inr (js ''t1'')"
    by (simp add: jane_facts access_token_tok)
  have first: "callback_handler env0 down sid0 cb_query_no_code init =
      (Responded (Json 400 (JObject
         [(js ''error'', JString (js ''Invalid state. Potential CSRF attack detected.''))])), init)"
    using callback_missing_code [OF field_cb_query(3) init_registry_ok,
        where x = token0 and e = env0 and p = down and sid = sid0] absent
    by blast
  have second: "callback_handler env0 down sid0 cb_query_no_code issued =
      (Responded (Send 500 (js ''Failed to fetch LinkedIn data'')),
       issued\<lparr>stateValues := (stateValues issued)(token0 := None)\<rparr>)"
    using callback_missing_code [OF field_cb_query(3) issued_registry_ok,
        where e = env0 and p = down and sid = sid0 and s = token0
          and t = "JString (js ''t1'')"] present rejected
    by blast
  have third: "callback_handler env0 token_only sid0 cb_query_no_code issued =
      (Responded (Send 500 (js ''Failed to fetch LinkedIn data'')),
       issued\<lparr>stateValues := (stateValues issued)(token0 := None)\<rparr>)"
    using callback_missing_code [OF field_cb_query(3) issued_registry_ok,
        where e = env0 and p = token_only and sid = sid0 and s = token0
          and t = "JString (js ''t1'')"
          and tokenData = "[(js ''access_token'', JString (js ''tok''))]"
          and token = "js ''tok''"] present half
    by blast
  have fourth: "fst (callback_handler env0 jane sid0 cb_query_no_code issued) =
      Responded (Redirect
        (js ''http://localhost:5173/details/'' @ js ''t1'' @ js ''?sessionId='' @ sid0))"
    using callback_missing_code [OF field_cb_query(3) issued_registry_ok,
        where e = env0 and p = jane and sid = sid0 and s = token0
          and t = "JString (js ''t1'')"
          and tokenData = "[(js ''access_token'', JString (js ''tok''))]"
          and token = "js ''tok''" and profile = jane_profile and ts = "js ''t1''"] present full
    by blast
  show ?thesis using first second third fourth by (intro conjI)
qed

section \<open>An import request with an invalid URL\<close>

text \<open>
  Where the claim holds: a \<^verbatim>\<open>linkedinUrl\<close> that is falsy, or a string that does not start
  with the prefix, is answered 400 and the state is untouched.
\<close>

lemma import_invalid_url:
  assumes "get body ''linkedinUrl'' = Inr u" and "get body ''templateId'' = Inr t"
    and "\<not> truthy u \<or> (\<exists>s. u = JString s \<and> take 28 s \<noteq> js ''https://www.linkedin.com/in/'')"
  shows "import_handler e body st =
     (Responded (Json 400 (JObject
        [(js ''message'', JString (js ''Veuillez fournir une URL LinkedIn valide.''))])), st)"
proof -
  have len: "length (js ''https://www.linkedin.com/in/'') = 28" by (simp add: js_def)
  show ?thesis using assms by (auto simp: import_handler_def len)
qed

text \<open>
  Claim C6 at a \<^verbatim>\<open>linkedinUrl\<close> that is the number 5: the value is truthy and has no
  \<^verbatim>\<open>startsWith\<close>, so line 57 throws a TypeError outside any \<^verbatim>\<open>try\<close> and the handler
  writes no 400 response.
\<close>

theorem import_number_url_throws:
  "import_handler e
     (JObject [(js ''linkedinUrl'', JNumber (js ''5'')), (js ''templateId'', JString (js ''t1''))])
     st = (Threw TypeError, st)"
  by (simp add: import_handler_def field_def)

section \<open>Looking up a session\<close>

text \<open>
  Claim C7. A lookup of a session id that is not in the store is answered 404, a lookup of
  one that is there is answered with the stored profile, and neither changes the state.
  No event changes or removes a stored profile, \<^verbatim>\<open>uuidv4()\<close> never giving the same session
  id to a later callback: after any such events, for as long as the process lives (a
  profile is kept until the process restarts), the lookup gives the same profile.
\<close>

theorem stored_profile_lookup:
  "(userDataStore st sid = None \<longrightarrow>
      user_data_handler sid st =
        (Responded (Json 404 (JObject [(js ''error'', JString (js ''Session data not found''))])),
         st))
   \<and> (userDataStore st sid = Some profile \<longrightarrow>
        user_data_handler sid st = (Responded (Json 200 profile), st)
        \<and> ((\<forall>ev \<in> set evs. \<not> generates sid ev) \<and> run e evs st = Some st1 \<longrightarrow>
             userDataStore st1 sid = Some profile
             \<and> user_data_handler sid st1 = (Responded (Json 200 profile), st1)))"
proof -
  have later: "userDataStore st1 sid = Some profile"
    if "userDataStore st sid = Some profile" and "\<forall>ev \<in> set evs. \<not> generates sid ev"
      and "run e evs st = Some st1"
    using that by (rule run_store)
  show ?thesis
    using later by (auto simp: user_data_handler_def)
qed

text \<open>The theorem at the empty store and at the session the example callback created.\<close>

theorem stored_profile_lookup_witness:
  "user_data_handler sid0 init =
     (Responded (Json 404 (JObject [(js ''error'', JString (js ''Session data not found''))])),
      init)
   \<and> user_data_handler sid0 created = (Responded (Json 200 jane_stored), created)
   \<and> user_data_handler sid0 (advance 300000 created) =
       (Responded (Json 200 jane_stored), advance 300000 created)"
proof -
  have none: "userDataStore init sid0 = None" by (simp add: init_def)
  have fresh: "\<forall>ev \<in> set [UserData sid0, Advance 300000, Import (JObject [])].
      \<not> generates sid0 ev"
    by simp
  show ?thesis
    using stored_profile_lookup [of init sid0 jane_stored "[]" env0 init] none
      stored_profile_lookup [of created sid0 jane_stored
        "[UserData sid0, Advance 300000, Import (JObject [])]" env0 "advance 300000 created"]
      created_store fresh lookup_run
    by blast
qed

section \<open>The auth request\<close>

text \<open>
  Claim C8, as amended. With a redirect URI that \<^verbatim>\<open>encodeURIComponent\<close> accepts: when
  \<^verbatim>\<open>templateId\<close> is missing or empty (falsy), the answer is 400 and the state is
  unchanged; when it is truthy and converts to a string, the state token is stored with
  it, its timer is set and registered, and the answer is the redirect to the
  authorization URL with the client id, the encoded redirect URI, the state token and the
  encoded scope.
\<close>

theorem auth_request:
  assumes "encode (REDIRECT_URI e) = Inr redirect"
  shows "(\<not> truthy (field query ''templateId'') \<longrightarrow>
            auth_handler e rnd query st =
              (Responded (Json 400 (JObject
                 [(js ''error'', JString (js ''Template ID is required.''))])), st))
       \<and> (truthy (field query ''templateId'') \<and> toString (field query ''templateId'') = Inr s \<longrightarrow>
            auth_handler e rnd query st =
              (Responded (Redirect
                 (js ''https://www.linkedin.com/oauth/v2/authorization?response_type=code&client_id=''
                  @ client e @ js ''&redirect_uri='' @ redirect
                  @ js ''&state='' @ hex (randomBytes16 rnd)
                  @ js ''&scope='' @ js ''openid%20profile%20email%20w_member_social'')),
               st\<lparr>stateValues :=
                    (stateValues st)(hex (randomBytes16 rnd) \<mapsto> field query ''templateId''),
                  timers := timers st @ [(nextTimer st, clock st + 300000, hex (randomBytes16 rnd))],
                  nextTimer := Suc (nextTimer st),
                  stateTimeouts := (stateTimeouts st)(hex (randomBytes16 rnd) \<mapsto> nextTimer st)\<rparr>))"
  using auth_missing [of query e rnd st] auth_issue [OF _ _ assms, of query s rnd st]
  by blast

text \<open>The theorem at a request without \<^verbatim>\<open>templateId\<close> and at the example auth request.\<close>

theorem auth_request_witness:
  "auth_handler env0 0 [] init =
     (Responded (Json 400 (JObject [(js ''error'', JString (js ''Template ID is required.''))])),
      init)
   \<and> auth_handler env0 0 t1_query init =
     (Responded (Redirect
        (js ''https://www.linkedin.com/oauth/v2/authorization?response_type=code&client_id=''
         @ client env0 @ js ''&redirect_uri=''
         @ js ''http%3A%2F%2Flocalhost%3A5000%2Fapi%2Flinkedin%2Fcallback''
         @ js ''&state='' @ hex (randomBytes16 0)
         @ js ''&scope='' @ js ''openid%20profile%20email%20w_member_social'')),
      init\<lparr>stateValues :=
             (stateValues init)(hex (randomBytes16 0) \<mapsto> field t1_query ''templateId''),
           timers := timers init @ [(nextTimer init, clock init + 300000, hex (randomBytes16 0))],
           nextTimer := Suc (nextTimer init),
           stateTimeouts := (stateTimeouts init)(hex (randomBytes16 0) \<mapsto> nextTimer init)\<rparr>)"
proof -
  have missing: "\<not> truthy (field [] ''templateId'')" by (simp add: field_def)
  have given: "truthy (field t1_query ''templateId'')
      \<and> toString (field t1_query ''templateId'') = Inr (js ''t1'')"
    by simp
  show ?thesis
    using auth_request [OF encode_default_redirect, where query = "[]" and rnd = 0 and st = init
          and s = "js ''t1''"] missing
      auth_request [OF encode_default_redirect, where query = t1_query and rnd = 0 and st = init
          and s = "js ''t1''"] given
    by blast
qed

text \<open>
  Claim C8 as stated fails for \<^verbatim>\<open>?templateId=\<close>: the parameter is there, with the empty
  string as its value, and the answer is 400 with no state stored.
\<close>

theorem auth_empty_templateId_counterexample:
  "field [(js ''templateId'', JString [])] ''templateId'' = JString []
   \<and> auth_handler env0 0 [(js ''templateId'', JString [])] init =
     (Responded (Json 400 (JObject [(js ''error'', JString (js ''Template ID is required.''))])),
      init)"
  by (simp add: auth_handler_def field_def)

section \<open>A failed exchange does not restore the state token\<close>

text \<open>
  Claim C9. For a callback request with a registered state token, the first part of the
  handler has already removed the entry when the exchange starts. When the token request
  is rejected, or the profile request is, the answer is 500 and the state is the one with
  the entry removed; whatever the exchange gives, the token is not in the registry
  afterwards, and the same request again is answered 400.
\<close>

theorem state_not_restored_after_failure:
  assumes "registry_ok st"
    and "field q ''state'' = JString s"
    and "stateValues st s = Some t"
    and "toString (field q ''code'') = Inr c"
  shows "callback_validate q st = (Inr t, st\<lparr>stateValues := (stateValues st)(s := None)\<rparr>)
       \<and> (accessToken_endpoint p
             [(js ''grant_type'', JString (js ''authorization_code'')),
              (js ''code'', field q ''code''),
              (js ''redirect_uri'', JString (REDIRECT_URI e)),
              (js ''client_id'', CLIENT_ID e),
              (js ''client_secret'', CLIENT_SECRET e)] = Rejected
           \<longrightarrow> callback_handler e p sid q st =
                 (Responded (Send 500 (js ''Failed to fetch LinkedIn data'')),
                  st\<lparr>stateValues := (stateValues st)(s := None)\<rparr>))
       \<and> (accessToken_endpoint p
             [(js ''grant_type'', JString (js ''authorization_code'')),
              (js ''code'', field q ''code''),
              (js ''redirect_uri'', JString (REDIRECT_URI e)),
              (js ''client_id'', CLIENT_ID e),
              (js ''client_secret'', CLIENT_SECRET e)] = Resolved (JObject tokenData)
           \<and> toString (field tokenData ''access_token'') = Inr token
           \<and> userinfo_endpoint p (js ''Bearer '' @ token) = Rejected
           \<longrightarrow> callback_handler e p sid q st =
                 (Responded (Send 500 (js ''Failed to fetch LinkedIn data'')),
                  st\<lparr>stateValues := (stateValues st)(s := None)\<rparr>))
       \<and> stateValues (snd (callback_handler e p sid q st)) s = None
       \<and> callback_handler e p' sid' q (snd (callback_handler e p sid q st)) =
           (Responded (Json 400 (JObject
              [(js ''error'', JString (js ''Invalid state. Potential CSRF attack detected.''))])),
            snd (callback_handler e p sid q st))"
proof -
  have first: "callback_validate q st = (Inr t, st\<lparr>stateValues := (stateValues st)(s := None)\<rparr>)"
    by (rule validate_valid [OF assms(1) assms(4) assms(2) assms(3)])
  have whole: "callback_handler e p sid q st =
      callback_exchange e p sid (field q ''code'') t
        (st\<lparr>stateValues := (stateValues st)(s := None)\<rparr>)"
    by (rule callback_valid [OF assms(1) assms(4) assms(2) assms(3)])
  have gone: "stateValues (snd (callback_handler e p sid q st)) s = None"
    by (simp add: whole exchange_facts)
  have again: "callback_handler e p' sid' q (snd (callback_handler e p sid q st)) =
      (Responded (Json 400 (JObject
         [(js ''error'', JString (js ''Invalid state. Potential CSRF attack detected.''))])),
       snd (callback_handler e p sid q st))"
    by (rule callback_absent [OF assms(4)]) (simp_all add: assms(2) gone)
  show ?thesis
    using first gone again exchange_rejected exchange_userinfo_rejected
    by (simp add: whole)
qed

text \<open>The theorem at the example token, with each of the two failures.\<close>

theorem state_not_restored_after_failure_witness:
  "callback_handler env0 down sid0 cb_query issued =
     (Responded (Send 500 (js ''Failed to fetch LinkedIn data'')),
      issued\<lparr>stateValues := (stateValues issued)(token0 := None)\<rparr>)
   \<and> callback_handler env0 token_only sid0 cb_query issued =
     (Responded (Send 500 (js ''Failed to fetch LinkedIn data'')),
      issued\<lparr>stateValues := (stateValues issued)(token0 := None)\<rparr>)
   \<and> callback_handler env0 jane sid0 cb_query (snd (callback_handler env0 down sid0 cb_query issued)) =
     (Responded (Json 400 (JObject
        [(js ''error'', JString (js ''Invalid state. Potential CSRF attack detected.''))])),
      snd (callback_handler env0 down sid0 cb_query issued))"
proof -
  have c: "toString (field cb_query ''code'') = Inr (js ''c0de'')" by simp
  have rejected: "accessToken_endpoint down
      [(js ''grant_type'', JString (js ''authorization_code'')), (js ''code'', field cb_query ''code''),
       (js ''redirect_uri'', JString (REDIRECT_URI env0)), (js ''client_id'', CLIENT_ID env0),
       (js ''client_secret'', CLIENT_SECRET env0)] = Rejected"
    by (simp add: jane_facts)
  have half: "accessToken_endpoint token_only
      [(js ''grant_type'', JString (js ''authorization_code'')), (js ''code'', field cb_query ''code''),
       (js ''redirect_uri'', JString (REDIRECT_URI env0)), (js ''client_id'', CLIENT_ID env0),
       (js ''client_secret'', CLIENT_SECRET env0)]
        = Resolved (JObject [(js ''access_token'', JString (js ''tok''))])
      \<and> toString (field [(js ''access_token'', JString (js ''tok''))] ''access_token'')
        = Inr (js ''tok'')
      \<and> userinfo_endpoint token_only (js ''Bearer '' @ js ''tok'') = Rejected"
    by (simp add: token_only_def access_token_tok)
  show ?thesis
    using state_not_restored_after_failure
        [OF issued_registry_ok field_cb_query(2) issued_facts(1) c,
         where p = down and e = env0 and sid = sid0 and p' = jane and sid' = sid0
           and tokenData = "[]" and token = "[]"] rejected
      state_not_restored_after_failure
        [OF issued_registry_ok field_cb_query(2) issued_facts(1) c,
         where p = token_only and e = env0 and sid = sid0 and p' = jane and sid' = sid0
           and tokenData = "[(js ''access_token'', JString (js ''tok''))]"
           and token = "js ''tok''"] half
    by blast
qed

section \<open>The import request does not validate \<^verbatim>\<open>templateId\<close>\<close>

text \<open>
  Claim C10, as amended. For an import request whose \<^verbatim>\<open>linkedinUrl\<close> starts with the
  prefix: when \<^verbatim>\<open>templateId\<close> is absent the answer is 200 with an authorization URL that
  ends in \<^verbatim>\<open>templateId=undefined\<close>; when it converts to a string that
  \<^verbatim>\<open>encodeURIComponent\<close> accepts the answer is 200 with the encoded string in the URL;
  when \<^verbatim>\<open>encodeURIComponent\<close> throws, the \<^verbatim>\<open>catch\<close> of line 67 answers 500. The state
  is unchanged in each case.
\<close>

theorem import_never_validates_templateId:
  assumes "field body ''linkedinUrl'' = JString (js ''https://www.linkedin.com/in/'' @ rest)"
  shows "(field body ''templateId'' = JUndefined \<longrightarrow>
            import_handler e (JObject body) st =
              (Responded (Json 200 (JObject
                 [(js ''authorizationUrl'',
                   JString (BASE_URL e @ js ''/api/linkedin/auth?templateId='' @ js ''undefined''))])),
               st))
       \<and> (toString (field body ''templateId'') = Inr s \<and> encode s = Inr t \<longrightarrow>
            import_handler e (JObject body) st =
              (Responded (Json 200 (JObject
                 [(js ''authorizationUrl'',
                   JString (BASE_URL e @ js ''/api/linkedin/auth?templateId='' @ t))])), st))
       \<and> (toString (field body ''templateId'') = Inr s \<and> encode s = Inl x \<longrightarrow>
            import_handler e (JObject body) st =
              (Responded (Json 500 (JObject
                 [(js ''message'', JString (js ''Erreur interne du serveur''))])), st))"
proof -
  have undef: "encode (js ''undefined'') = Inr (js ''undefined'')"
    by (simp add: encode_eval)
  show ?thesis
    using assms undef
    by (auto simp: import_handler_def encodeURIComponent_def)
qed

text \<open>The theorem at an absent \<^verbatim>\<open>templateId\<close>, at one with a space and at a lone surrogate.\<close>

theorem import_never_validates_templateId_witness:
  "import_handler env0
     (JObject [(js ''linkedinUrl'', JString (js ''https://www.linkedin.com/in/'' @ js ''jdoe''))])
     init =
     (Responded (Json 200 (JObject
        [(js ''authorizationUrl'',
          JString (BASE_URL env0 @ js ''/api/linkedin/auth?templateId='' @ js ''undefined''))])),
      init)
   \<and> import_handler env0
     (JObject [(js ''linkedinUrl'', JString (js ''https://www.linkedin.com/in/'' @ js ''jdoe'')),
               (js ''templateId'', JString (js ''t 1''))])
     init =
     (Responded (Json 200 (JObject
        [(js ''authorizationUrl'',
          JString (BASE_URL env0 @ js ''/api/linkedin/auth?templateId='' @ js ''t%201''))])),
      init)
   \<and> import_handler env0
     (JObject [(js ''linkedinUrl'', JString (js ''https://www.linkedin.com/in/'' @ js ''jdoe'')),
               (js ''templateId'', JString [0xD800])])
     init =
     (Responded (Json 500 (JObject
        [(js ''message'', JString (js ''Erreur interne du serveur''))])), init)"
proof -
  let ?url = "JString (js ''https://www.linkedin.com/in/'' @ js ''jdoe'')"
  have a: "field [(js ''linkedinUrl'', ?url)] ''linkedinUrl'' = ?url"
    and a': "field [(js ''linkedinUrl'', ?url)] ''templateId'' = JUndefined"
    by (simp_all add: field_def)
  have b: "field [(js ''linkedinUrl'', ?url), (js ''templateId'', JString (js ''t 1''))]
        ''linkedinUrl'' = ?url"
    and b': "toString (field [(js ''linkedinUrl'', ?url), (js ''templateId'', JString (js ''t 1''))]
        ''templateId'') = Inr (js ''t 1'') \<and> encode (js ''t 1'') = Inr (js ''t%201'')"
    by (simp_all add: field_def) (simp add: encode_eval)
  have c: "field [(js ''linkedinUrl'', ?url), (js ''templateId'', JString [0xD800])]
        ''linkedinUrl'' = ?url"
    and c': "toString (field [(js ''linkedinUrl'', ?url), (js ''templateId'', JString [0xD800])]
        ''templateId'') = Inr [0xD800] \<and> encode [0xD800] = Inl URIError"
    by (simp_all add: field_def) (simp add: encode_eval)
  show ?thesis
    using import_never_validates_templateId [OF a, where e = env0 and st = init and s = "[]"
          and t = "[]" and x = URIError] a'
      import_never_validates_templateId [OF b, where e = env0 and st = init and s = "js ''t 1''"
          and t = "js ''t%201''" and x = URIError] b'
      import_never_validates_templateId [OF c, where e = env0 and st = init and s = "[0xD800]"
          and t = "[]" and x = URIError] c'
    by blast
qed

text \<open>
  Claim C10 as stated fails for a \<^verbatim>\<open>templateId\<close> that is a lone surrogate: the URL starts
  with the prefix and the answer is 500.
\<close>

theorem import_lone_surrogate_counterexample:
  "import_handler env0
     (JObject [(js ''linkedinUrl'', JString (js ''https://www.linkedin.com/in/jdoe'')),
               (js ''templateId'', JString [0xD800])])
     init =
     (Responded (Json 500 (JObject
        [(js ''message'', JString (js ''Erreur interne du serveur''))])), init)"
proof -
  have url: "startsWith (JString (js ''https://www.linkedin.com/in/jdoe''))
      (js ''https://www.linkedin.com/in/'') = Inr True"
    by (simp add: js_def)
  have enc: "encode [0xD800] = Inl URIError"
    by (simp add: encode_eval)
  show ?thesis
    by (simp add: import_handler_def field_def url enc encodeURIComponent_def
        del: encode.simps startsWith.simps)
qed



end
